theory Spec2Isabelle
  imports Complex_Main "HOL-Library.AList" "HOL-Library.Char_ord"
begin

section \<open>Tokens (zen\_token/zen\_token.py)\<close>

text \<open>
  \<open>TokenType\<close> is a class of string constants used as an enumeration; \<open>token_type_name\<close>
  gives back the Python string. A token's literal is an int, a str or \<open>None\<close>.
  Characters are the code points 0 to 255.
\<close>

datatype token_type =
    T_EOF | T_ILLEGAL | T_IDENT | T_INT | T_STRING
  | T_BAG | T_LOAD | T_FX | T_CLX | T_RETURN | T_IF | T_ELSE | T_FOR
  | T_TRUE | T_FALSE | T_NIL | T_SELF
  | T_ASSIGN | T_PLUS | T_MINUS | T_MULTIPLY | T_DIVIDE
  | T_EQ | T_NEQ | T_LT | T_GT | T_LTE | T_GTE
  | T_AND | T_OR | T_NOT
  | T_LPAREN | T_RPAREN | T_LBRACE | T_RBRACE | T_COMMA | T_DOT

fun token_type_name :: "token_type \<Rightarrow> string" where
  "token_type_name T_EOF = ''EOF''" | "token_type_name T_ILLEGAL = ''ILLEGAL''"
| "token_type_name T_IDENT = ''IDENT''" | "token_type_name T_INT = ''INT''"
| "token_type_name T_STRING = ''STRING''" | "token_type_name T_BAG = ''BAG''"
| "token_type_name T_LOAD = ''LOAD''" | "token_type_name T_FX = ''FX''"
| "token_type_name T_CLX = ''CLX''" | "token_type_name T_RETURN = ''RETURN''"
| "token_type_name T_IF = ''IF''" | "token_type_name T_ELSE = ''ELSE''"
| "token_type_name T_FOR = ''FOR''" | "token_type_name T_TRUE = ''TRUE''"
| "token_type_name T_FALSE = ''FALSE''" | "token_type_name T_NIL = ''NIL''"
| "token_type_name T_SELF = ''SELF''" | "token_type_name T_ASSIGN = ''ASSIGN''"
| "token_type_name T_PLUS = ''PLUS''" | "token_type_name T_MINUS = ''MINUS''"
| "token_type_name T_MULTIPLY = ''MULTIPLY''" | "token_type_name T_DIVIDE = ''DIVIDE''"
| "token_type_name T_EQ = ''EQ''" | "token_type_name T_NEQ = ''NEQ''"
| "token_type_name T_LT = ''LT''" | "token_type_name T_GT = ''GT''"
| "token_type_name T_LTE = ''LTE''" | "token_type_name T_GTE = ''GTE''"
| "token_type_name T_AND = ''AND''" | "token_type_name T_OR = ''OR''"
| "token_type_name T_NOT = ''NOT''" | "token_type_name T_LPAREN = ''LPAREN''"
| "token_type_name T_RPAREN = ''RPAREN''" | "token_type_name T_LBRACE = ''LBRACE''"
| "token_type_name T_RBRACE = ''RBRACE''" | "token_type_name T_COMMA = ''COMMA''"
| "token_type_name T_DOT = ''DOT''"

datatype literal = LitInt int | LitStr string | LitNone

datatype token = Token (ttype: token_type) (literal: literal) (line: nat) (column: nat)

definition KEYWORDS :: "(string \<times> token_type) list" where
  "KEYWORDS = [(''bag'', T_BAG), (''load'', T_LOAD), (''fx'', T_FX), (''clx'', T_CLX),
     (''return'', T_RETURN), (''if'', T_IF), (''else'', T_ELSE), (''for'', T_FOR),
     (''true'', T_TRUE), (''false'', T_FALSE), (''nil'', T_NIL), (''self'', T_SELF)]"

definition lookup_ident :: "string \<Rightarrow> token_type" where
  "lookup_ident ident = (case map_of KEYWORDS ident of Some t \<Rightarrow> t | None \<Rightarrow> T_IDENT)"

section \<open>Lexer (lexer/regex\_lexer.py)\<close>

definition LF :: char where "LF = CHR 0x0A"
definition TAB :: char where "TAB = CHR 0x09"
definition CR :: char where "CR = CHR 0x0D"
definition BACKSLASH :: char where "BACKSLASH = CHR 0x5C"
definition DQUOTE :: char where "DQUOTE = CHR 0x22"

definition is_digit :: "char \<Rightarrow> bool" where
  "is_digit c = (CHR ''0'' \<le> c \<and> c \<le> CHR ''9'')"

definition is_ident_start :: "char \<Rightarrow> bool" where
  "is_ident_start c =
     ((CHR ''a'' \<le> c \<and> c \<le> CHR ''z'') \<or> (CHR ''A'' \<le> c \<and> c \<le> CHR ''Z'') \<or> c = CHR ''_'')"

definition is_ident_char :: "char \<Rightarrow> bool" where
  "is_ident_char c = (is_ident_start c \<or> is_digit c)"

definition is_blank :: "char \<Rightarrow> bool" where
  "is_blank c = (c = CHR '' '' \<or> c = TAB \<or> c = CR)"

text \<open>
  \<open>_process_string\<close>: the loop over \<open>content\<close> with index \<open>i\<close>, as a recursion on the
  part of \<open>content\<close> from \<open>i\<close> on. \<open>escapes\<close> is the dict of the five two-character
  escape sequences, keyed here by the character after the backslash.
\<close>

definition escapes :: "(char \<times> char) list" where
  "escapes = [(CHR ''n'', LF), (CHR ''t'', TAB), (CHR ''r'', CR),
              (BACKSLASH, BACKSLASH), (DQUOTE, DQUOTE)]"

fun process_escapes :: "string \<Rightarrow> string" where
  "process_escapes [] = []"
| "process_escapes [c] = [c]"
| "process_escapes (c # d # cs) =
     (if c = BACKSLASH then
        (case map_of escapes d of
           Some e \<Rightarrow> e # process_escapes cs
         | None \<Rightarrow> c # process_escapes (d # cs))
      else c # process_escapes (d # cs))"

definition process_string :: "string \<Rightarrow> string" where
  "process_string text = process_escapes (butlast (tl text))"

text \<open>\<open>_process_int\<close> is Python's \<open>int\<close> on a run of decimal digits.\<close>

definition digit_val :: "char \<Rightarrow> nat" where
  "digit_val c = of_char c - of_char CHR ''0''"

definition process_int :: "string \<Rightarrow> int" where
  "process_int text = int (foldl (\<lambda>acc c. 10 * acc + digit_val c) 0 text)"

text \<open>
  The master regex is the alternation of the rules of \<open>TOKEN_RULES\<close> in their order, so
  the first rule that matches at the position wins. Each function below gives the length
  matched by one rule at the start of the remaining input.
\<close>

datatype rule_group =
    SkipRule | NewlineRule | StringRule | IntRule | PlainRule token_type | IdentOrKeyword

text \<open>\<open>/\*[\s\S]*?\*/\<close>: the number of characters up to and including the first \<open>*/\<close>.\<close>

fun block_comment_end :: "string \<Rightarrow> nat option" where
  "block_comment_end [] = None"
| "block_comment_end [c] = None"
| "block_comment_end (c # d # cs) =
     (if c = CHR ''*'' \<and> d = CHR ''/'' then Some 2
      else map_option Suc (block_comment_end (d # cs)))"

text \<open>
  \<open>"(?:[^"\\]|\\.)*"\<close> after the opening quote: the two alternatives of the body start
  with different characters, so the match is a single scan; \<open>.\<close> does not match a newline.
\<close>

fun string_body_end :: "string \<Rightarrow> nat option" where
  "string_body_end [] = None"
| "string_body_end (c # cs) =
     (if c = DQUOTE then Some 1
      else if c = BACKSLASH then
        (case cs of
           [] \<Rightarrow> None
         | d # ds \<Rightarrow> if d = LF then None else map_option (\<lambda>n. n + 2) (string_body_end ds))
      else map_option Suc (string_body_end cs))"

definition two_char_ops :: "(string \<times> token_type) list" where
  "two_char_ops = [(''=='', T_EQ), (''!='', T_NEQ), (''<='', T_LTE), (''>='', T_GTE),
                   (''&&'', T_AND), (''||'', T_OR)]"

definition one_char_ops :: "(char \<times> token_type) list" where
  "one_char_ops = [(CHR ''+'', T_PLUS), (CHR ''-'', T_MINUS), (CHR ''*'', T_MULTIPLY),
     (CHR ''/'', T_DIVIDE), (CHR ''='', T_ASSIGN), (CHR ''<'', T_LT), (CHR ''>'', T_GT),
     (CHR ''!'', T_NOT), (CHR ''('', T_LPAREN), (CHR '')'', T_RPAREN), (CHR ''{'', T_LBRACE),
     (CHR ''}'', T_RBRACE), (CHR '','', T_COMMA), (CHR ''.'', T_DOT)]"

definition master_match :: "string \<Rightarrow> (nat \<times> rule_group) option" where
  "master_match rest =
    (case rest of
       [] \<Rightarrow> None
     | c # cs \<Rightarrow>
        if take 2 rest = ''//'' then
          Some (2 + length (takeWhile (\<lambda>x. x \<noteq> LF) (drop 2 rest)), SkipRule)
        else if take 2 rest = ''/*'' \<and> block_comment_end (drop 2 rest) \<noteq> None then
          Some (2 + the (block_comment_end (drop 2 rest)), SkipRule)
        else if c = LF then Some (1, NewlineRule)
        else if is_blank c then Some (length (takeWhile is_blank rest), SkipRule)
        else if c = DQUOTE \<and> string_body_end cs \<noteq> None then
          Some (1 + the (string_body_end cs), StringRule)
        else if is_digit c then Some (length (takeWhile is_digit rest), IntRule)
        else if map_of two_char_ops (take 2 rest) \<noteq> None then
          Some (2, PlainRule (the (map_of two_char_ops (take 2 rest))))
        else if map_of one_char_ops c \<noteq> None then
          Some (1, PlainRule (the (map_of one_char_ops c)))
        else if is_ident_start c then
          Some (Suc (length (takeWhile is_ident_char cs)), IdentOrKeyword)
        else None)"

text \<open>
  \<open>tokenize\<close>: the loop \<open>while self.position < len(self.input_text)\<close> around
  \<open>_next_token\<close> (the keyword-aware version that the class binds to that name), on the
  input from \<open>position\<close> on. \<open>LexerError\<close> carries the offending character and the
  position.
\<close>

datatype lexer_error = LexerError char nat nat

lemma block_comment_end_pos: "block_comment_end cs = Some n \<Longrightarrow> 0 < n"
  by (induction cs arbitrary: n rule: block_comment_end.induct) (auto split: if_splits)

lemma string_body_end_pos: "string_body_end cs = Some n \<Longrightarrow> 0 < n"
  by (induction cs arbitrary: n rule: string_body_end.induct)
     (auto split: if_splits list.splits)

lemma master_match_pos: "master_match rest = Some (n, g) \<Longrightarrow> 0 < n"
  by (cases rest) (auto simp: master_match_def split: if_splits)

function tokenize_loop :: "string \<Rightarrow> nat \<Rightarrow> nat \<Rightarrow> token list \<Rightarrow> lexer_error + token list" where
  "tokenize_loop rest lno cno toks =
    (if rest = [] then Inr (toks @ [Token T_EOF LitNone lno cno])
     else
       (case master_match rest of
          None \<Rightarrow> Inl (LexerError (hd rest) lno cno)
        | Some (n, g) \<Rightarrow>
            let matched_text = take n rest in
            (case g of
               SkipRule \<Rightarrow> tokenize_loop (drop n rest) lno (cno + n) toks
             | NewlineRule \<Rightarrow> tokenize_loop (drop n rest) (lno + 1) 1 toks
             | IdentOrKeyword \<Rightarrow>
                 tokenize_loop (drop n rest) lno (cno + n)
                   (toks @ [Token (lookup_ident matched_text) (LitStr matched_text) lno cno])
             | StringRule \<Rightarrow>
                 tokenize_loop (drop n rest) lno (cno + n)
                   (toks @ [Token T_STRING (LitStr (process_string matched_text)) lno cno])
             | IntRule \<Rightarrow>
                 tokenize_loop (drop n rest) lno (cno + n)
                   (toks @ [Token T_INT (LitInt (process_int matched_text)) lno cno])
             | PlainRule t \<Rightarrow>
                 tokenize_loop (drop n rest) lno (cno + n)
                   (toks @ [Token t (LitStr matched_text) lno cno]))))"
  by pat_completeness auto
termination
  by (relation "measure (\<lambda>(rest, lno, cno, toks). length rest)")
     (auto dest: master_match_pos)

definition tokenize :: "string \<Rightarrow> lexer_error + token list" where
  "tokenize input_text = tokenize_loop input_text 1 1 []"

section \<open>Abstract syntax (zen\_ast/ast.py)\<close>

text \<open>
  One datatype for every AST node class. A child position of the Python classes may hold
  \<open>None\<close> (the parser returns \<open>None\<close> from a failed sub-parse and stores it in the
  parent); \<open>NoneNode\<close> is that value.
\<close>

datatype node =
    NoneNode
  | Program "node list"
  | PackageStatement string
  | LoadStatement "string list"
  | FunctionStatement string "string list" node
  | ClassStatement string "node list"
  | ReturnStatement node
  | ExpressionStatement node
  | AssignStatement node node
  | BlockStatement "node list"
  | Identifier string
  | IntegerLiteral int
  | StringLiteral string
  | BooleanLiteral bool
  | NilLiteral
  | SelfExpression
  | PrefixExpression string node
  | InfixExpression node string node
  | CallExpression node "node list"
  | MemberAccessExpression node string

text \<open>Python's \<open>str\<close> on an int and \<open>sep.join(parts)\<close>.\<close>

fun str_nat :: "nat \<Rightarrow> string" where
  "str_nat n =
     (if n < 10 then [char_of (48 + n)]
      else str_nat (n div 10) @ [char_of (48 + n mod 10)])"

definition str_int :: "int \<Rightarrow> string" where
  "str_int i = (if i < 0 then CHR ''-'' # str_nat (nat (- i)) else str_nat (nat i))"

fun join :: "string \<Rightarrow> string list \<Rightarrow> string" where
  "join sep [] = []"
| "join sep [x] = x"
| "join sep (x # y # ys) = x @ sep @ join sep (y # ys)"

text \<open>
  The \<open>string()\<close> methods. A child that is \<open>None\<close> has no \<open>string\<close> method, so the call
  raises; \<open>node_string\<close> is \<open>None\<close> then. \<open>ReturnStatement.string\<close> tests its value
  first.
\<close>

fun node_string :: "node \<Rightarrow> string option" where
  "node_string NoneNode = None"
| "node_string (Program statements) =
     map_option (join [CHR 0x0A]) (those (map node_string statements))"
| "node_string (PackageStatement name) = Some (''bag '' @ name)"
| "node_string (LoadStatement imports) =
     Some (''load('' @ join '', '' (map (\<lambda>imp. [CHR 0x22] @ imp @ [CHR 0x22]) imports) @ '')'')"
| "node_string (FunctionStatement name parameters body) =
     map_option (\<lambda>b. ''fx '' @ name @ ''('' @ join '', '' parameters @ '') '' @ b)
       (node_string body)"
| "node_string (ClassStatement name methods) =
     map_option (\<lambda>ms. ''clx '' @ name @ '' {'' @ [CHR 0x0A] @ join [CHR 0x0A] ms @ [CHR 0x0A] @ ''}'')
       (those (map node_string methods))"
| "node_string (ReturnStatement v) =
     (if v \<noteq> NoneNode then map_option (\<lambda>x. ''return '' @ x) (node_string v)
      else Some ''return'')"
| "node_string (ExpressionStatement expression) = node_string expression"
| "node_string (AssignStatement target v) =
     (case node_string target of
        None \<Rightarrow> None
      | Some t \<Rightarrow> map_option (\<lambda>x. t @ '' = '' @ x) (node_string v))"
| "node_string (BlockStatement statements) =
     map_option (\<lambda>ss. ''{'' @ [CHR 0x0A] @ join [CHR 0x0A] ss @ [CHR 0x0A] @ ''}'')
       (those (map node_string statements))"
| "node_string (Identifier v) = Some v"
| "node_string (IntegerLiteral v) = Some (str_int v)"
| "node_string (StringLiteral v) = Some ([CHR 0x22] @ v @ [CHR 0x22])"
| "node_string (BooleanLiteral v) = Some (if v then ''true'' else ''false'')"
| "node_string NilLiteral = Some ''nil''"
| "node_string SelfExpression = Some ''self''"
| "node_string (PrefixExpression operator right) =
     map_option (\<lambda>r. ''('' @ operator @ r @ '')'') (node_string right)"
| "node_string (InfixExpression left operator right) =
     (case node_string left of
        None \<Rightarrow> None
      | Some l \<Rightarrow> map_option (\<lambda>r. ''('' @ l @ '' '' @ operator @ '' '' @ r @ '')'') (node_string right))"
| "node_string (CallExpression function arguments) =
     (case node_string function of
        None \<Rightarrow> None
      | Some f \<Rightarrow> map_option (\<lambda>args. f @ ''('' @ join '', '' args @ '')'')
                    (those (map node_string arguments)))"
| "node_string (MemberAccessExpression object member) =
     map_option (\<lambda>ob. ob @ ''.'' @ member) (node_string object)"

section \<open>Parser (parser/parser.py)\<close>

text \<open>
  The parser state is the position in the token list and the list of error messages; the
  token list itself never changes. \<open>Precedence\<close> is an \<open>IntEnum\<close>.
\<close>

record parser_state =
  current_pos :: nat
  errors :: "string list"

definition LOWEST :: nat where "LOWEST = 1"
definition PREFIX :: nat where "PREFIX = 9"

definition PRECEDENCES :: "(token_type \<times> nat) list" where
  "PRECEDENCES = [(T_ASSIGN, 2), (T_OR, 3), (T_AND, 4), (T_EQ, 5), (T_NEQ, 5),
     (T_LT, 6), (T_GT, 6), (T_LTE, 6), (T_GTE, 6), (T_PLUS, 7), (T_MINUS, 7),
     (T_MULTIPLY, 8), (T_DIVIDE, 8), (T_LPAREN, 10), (T_DOT, 11)]"

definition prefix_registered :: "token_type list" where
  "prefix_registered = [T_IDENT, T_INT, T_STRING, T_TRUE, T_FALSE, T_NIL, T_SELF,
     T_MINUS, T_NOT, T_LPAREN]"

definition infix_operators :: "token_type list" where
  "infix_operators = [T_PLUS, T_MINUS, T_MULTIPLY, T_DIVIDE, T_EQ, T_NEQ, T_LT, T_GT,
     T_LTE, T_GTE, T_AND, T_OR]"

definition infix_registered :: "token_type list" where
  "infix_registered = infix_operators @ [T_LPAREN, T_DOT]"

text \<open>
  The literal of a token read as a str or as an int. The lexer gives every token but INT
  and EOF a str literal and every INT token an int literal, and the parser reads a
  literal only from tokens of the matching kind.
\<close>

fun lit_str :: "literal \<Rightarrow> string" where
  "lit_str (LitStr s) = s"
| "lit_str _ = []"

fun lit_int :: "literal \<Rightarrow> int" where
  "lit_int (LitInt i) = i"
| "lit_int _ = 0"

definition current_token :: "token list \<Rightarrow> parser_state \<Rightarrow> token option" where
  "current_token toks ps =
     (if current_pos ps < length toks then Some (toks ! current_pos ps) else None)"

definition peek_token :: "token list \<Rightarrow> parser_state \<Rightarrow> token option" where
  "peek_token toks ps =
     (if current_pos ps + 1 < length toks then Some (toks ! (current_pos ps + 1)) else None)"

definition advance :: "token list \<Rightarrow> parser_state \<Rightarrow> parser_state" where
  "advance toks ps =
     (if current_pos ps < length toks then ps\<lparr>current_pos := current_pos ps + 1\<rparr> else ps)"

definition current_token_is :: "token list \<Rightarrow> parser_state \<Rightarrow> token_type \<Rightarrow> bool" where
  "current_token_is toks ps t =
     (case current_token toks ps of None \<Rightarrow> False | Some tok \<Rightarrow> ttype tok = t)"

definition peek_token_is :: "token list \<Rightarrow> parser_state \<Rightarrow> token_type \<Rightarrow> bool" where
  "peek_token_is toks ps t =
     (case peek_token toks ps of None \<Rightarrow> False | Some tok \<Rightarrow> ttype tok = t)"

definition add_error :: "string \<Rightarrow> parser_state \<Rightarrow> parser_state" where
  "add_error msg ps = ps\<lparr>errors := errors ps @ [msg]\<rparr>"

definition peek_error :: "token list \<Rightarrow> parser_state \<Rightarrow> token_type \<Rightarrow> parser_state" where
  "peek_error toks ps t =
     (case peek_token toks ps of
        Some peek \<Rightarrow>
          add_error (''Expected next token to be '' @ token_type_name t @ '', got ''
                     @ token_type_name (ttype peek) @ '' instead'') ps
      | None \<Rightarrow>
          add_error (''Expected next token to be '' @ token_type_name t
                     @ '', but reached EOF'') ps)"

definition expect_peek :: "token list \<Rightarrow> parser_state \<Rightarrow> token_type \<Rightarrow> bool \<times> parser_state" where
  "expect_peek toks ps t =
     (if peek_token_is toks ps t then (True, advance toks ps)
      else (False, peek_error toks ps t))"

definition precedence_of :: "token option \<Rightarrow> nat" where
  "precedence_of tok =
     (case tok of
        None \<Rightarrow> LOWEST
      | Some t \<Rightarrow> (case map_of PRECEDENCES (ttype t) of Some p \<Rightarrow> p | None \<Rightarrow> LOWEST))"

definition current_precedence :: "token list \<Rightarrow> parser_state \<Rightarrow> nat" where
  "current_precedence toks ps = precedence_of (current_token toks ps)"

definition peek_precedence :: "token list \<Rightarrow> parser_state \<Rightarrow> nat" where
  "peek_precedence toks ps = precedence_of (peek_token toks ps)"

definition current_literal :: "token list \<Rightarrow> parser_state \<Rightarrow> literal" where
  "current_literal toks ps =
     (case current_token toks ps of Some tok \<Rightarrow> literal tok | None \<Rightarrow> LitNone)"

definition parse_package_statement :: "token list \<Rightarrow> parser_state \<Rightarrow> node \<times> parser_state" where
  "parse_package_statement toks ps =
     (case expect_peek toks ps T_IDENT of
        (False, ps1) \<Rightarrow> (NoneNode, ps1)
      | (True, ps1) \<Rightarrow> (PackageStatement (lit_str (current_literal toks ps1)), ps1))"

definition parse_member_access_expression ::
  "token list \<Rightarrow> node \<Rightarrow> parser_state \<Rightarrow> node \<times> parser_state" where
  "parse_member_access_expression toks object ps =
     (let ps1 = advance toks ps in
      if \<not> current_token_is toks ps1 T_IDENT
      then (NoneNode, add_error ''Expected identifier after .'' ps1)
      else (MemberAccessExpression object (lit_str (current_literal toks ps1)), ps1))"

text \<open>
  The loops of \<open>_parse_load_statement\<close> and \<open>_parse_function_parameters\<close>. Every
  function with a loop or a recursive call takes fuel: \<open>None\<close> is a run that needs more
  steps than the fuel allows, so a parse that never ends is \<open>None\<close> for every fuel.
\<close>

fun parse_load_loop ::
  "nat \<Rightarrow> token list \<Rightarrow> string list \<Rightarrow> parser_state \<Rightarrow> (string list \<times> parser_state) option" where
  "parse_load_loop 0 toks imports ps = None"
| "parse_load_loop (Suc n) toks imports ps =
     (if current_token_is toks ps T_STRING then
        (let imports1 = imports @ [lit_str (current_literal toks ps)] in
         if peek_token_is toks ps T_COMMA then
           parse_load_loop n toks imports1 (advance toks (advance toks ps))
         else if peek_token_is toks ps T_RPAREN then Some (imports1, advance toks ps)
         else Some (imports1, add_error ''Expected , or ) after import path'' ps))
      else Some (imports, add_error ''Expected string literal in load statement'' ps))"

definition parse_load_statement ::
  "nat \<Rightarrow> token list \<Rightarrow> parser_state \<Rightarrow> (node \<times> parser_state) option" where
  "parse_load_statement n toks ps =
     (case expect_peek toks ps T_LPAREN of
        (False, ps1) \<Rightarrow> Some (NoneNode, ps1)
      | (True, ps1) \<Rightarrow>
          (let ps2 = advance toks ps1 in
           if current_token_is toks ps2 T_RPAREN then Some (LoadStatement [], ps2)
           else map_option (\<lambda>(imports, ps3). (LoadStatement imports, ps3))
                  (parse_load_loop n toks [] ps2)))"

fun parse_parameters_loop ::
  "nat \<Rightarrow> token list \<Rightarrow> string list \<Rightarrow> parser_state \<Rightarrow> (string list \<times> parser_state) option" where
  "parse_parameters_loop 0 toks params ps = None"
| "parse_parameters_loop (Suc n) toks params ps =
     (if current_token_is toks ps T_IDENT then
        (let params1 = params @ [lit_str (current_literal toks ps)] in
         if peek_token_is toks ps T_COMMA then
           parse_parameters_loop n toks params1 (advance toks (advance toks ps))
         else if peek_token_is toks ps T_RPAREN then Some (params1, advance toks ps)
         else Some (params1, add_error ''Expected , or ) after parameter'' ps))
      else Some (params, add_error ''Expected parameter name'' ps))"

definition parse_function_parameters ::
  "nat \<Rightarrow> token list \<Rightarrow> parser_state \<Rightarrow> (string list \<times> parser_state) option" where
  "parse_function_parameters n toks ps =
     (let ps1 = advance toks ps in
      if current_token_is toks ps1 T_RPAREN then Some ([], ps1)
      else parse_parameters_loop n toks [] ps1)"

text \<open>The prefix parse functions that read one token and do not recurse.\<close>

definition parse_atom :: "token \<Rightarrow> node" where
  "parse_atom tok =
     (case ttype tok of
        T_IDENT \<Rightarrow> Identifier (lit_str (literal tok))
      | T_INT \<Rightarrow> IntegerLiteral (lit_int (literal tok))
      | T_STRING \<Rightarrow> StringLiteral (lit_str (literal tok))
      | T_TRUE \<Rightarrow> BooleanLiteral True
      | T_FALSE \<Rightarrow> BooleanLiteral False
      | T_NIL \<Rightarrow> NilLiteral
      | T_SELF \<Rightarrow> SelfExpression
      | _ \<Rightarrow> NoneNode)"

text \<open>
  The parse functions that call each other. Each is written once, with the calls into the
  parser going through \<open>rc\<close>, the parser with one unit of fuel less; \<open>parser_call\<close>
  names the function called and carries its arguments. \<open>ExpressionLoop\<close>, \<open>CallLoop\<close>,
  \<open>ClassLoop\<close>, \<open>BlockLoop\<close> and \<open>ProgramLoop\<close> are the \<open>while\<close> loops of
  \<open>_parse_expression\<close>, \<open>_parse_call_expression\<close>, \<open>_parse_class_statement\<close>,
  \<open>_parse_block_statement\<close> and \<open>parse_program\<close>.
\<close>

datatype parser_call =
    ParseExpression nat
  | ExpressionLoop nat node
  | ParsePrefixExpression
  | ParseGroupedExpression
  | ParseInfixExpression node
  | ParseCallExpression node
  | CallLoop node "node list"
  | ParseStatement
  | ParseFunctionStatement
  | ClassLoop string "node list"
  | ParseBlockStatement
  | BlockLoop "node list"
  | ProgramLoop "node list"

type_synonym parse_result = "(node \<times> parser_state) option"
type_synonym parser_rec = "parser_call \<Rightarrow> parser_state \<Rightarrow> parse_result"

definition parse_expression :: "parser_rec \<Rightarrow> token list \<Rightarrow> nat \<Rightarrow> parser_state \<Rightarrow> parse_result" where
  "parse_expression rc toks precedence ps =
     (case current_token toks ps of
        None \<Rightarrow> Some (NoneNode, add_error ''No prefix parse function for EOF'' ps)
      | Some tok \<Rightarrow>
          if ttype tok \<notin> set prefix_registered then
            Some (NoneNode,
                  add_error (''No prefix parse function for '' @ token_type_name (ttype tok)) ps)
          else
            (case (if ttype tok = T_MINUS \<or> ttype tok = T_NOT then rc ParsePrefixExpression ps
                   else if ttype tok = T_LPAREN then rc ParseGroupedExpression ps
                   else Some (parse_atom tok, ps)) of
               None \<Rightarrow> None
             | Some (left_expr, ps1) \<Rightarrow> rc (ExpressionLoop precedence left_expr) ps1))"

definition parse_expression_loop ::
  "parser_rec \<Rightarrow> token list \<Rightarrow> nat \<Rightarrow> node \<Rightarrow> parser_state \<Rightarrow> parse_result" where
  "parse_expression_loop rc toks precedence left_expr ps =
     (if \<not> peek_token_is toks ps T_EOF \<and> precedence < peek_precedence toks ps then
        (case peek_token toks ps of
           None \<Rightarrow> Some (left_expr, ps)
         | Some peek \<Rightarrow>
             if ttype peek \<notin> set infix_registered then Some (left_expr, ps)
             else
               (case (if ttype peek = T_LPAREN then
                        rc (ParseCallExpression left_expr) (advance toks ps)
                      else if ttype peek = T_DOT then
                        Some (parse_member_access_expression toks left_expr (advance toks ps))
                      else rc (ParseInfixExpression left_expr) (advance toks ps)) of
                  None \<Rightarrow> None
                | Some (left1, ps1) \<Rightarrow> rc (ExpressionLoop precedence left1) ps1))
      else Some (left_expr, ps))"

definition parse_prefix_expression :: "parser_rec \<Rightarrow> token list \<Rightarrow> parser_state \<Rightarrow> parse_result" where
  "parse_prefix_expression rc toks ps =
     (let operator = lit_str (current_literal toks ps) in
      case rc (ParseExpression PREFIX) (advance toks ps) of
        None \<Rightarrow> None
      | Some (right, ps1) \<Rightarrow>
          if right = NoneNode then Some (NoneNode, ps1)
          else Some (PrefixExpression operator right, ps1))"

definition parse_grouped_expression :: "parser_rec \<Rightarrow> token list \<Rightarrow> parser_state \<Rightarrow> parse_result" where
  "parse_grouped_expression rc toks ps =
     (case rc (ParseExpression LOWEST) (advance toks ps) of
        None \<Rightarrow> None
      | Some (expr, ps1) \<Rightarrow>
          (case expect_peek toks ps1 T_RPAREN of
             (False, ps2) \<Rightarrow> Some (NoneNode, ps2)
           | (True, ps2) \<Rightarrow> Some (expr, ps2)))"

definition parse_infix_expression ::
  "parser_rec \<Rightarrow> token list \<Rightarrow> node \<Rightarrow> parser_state \<Rightarrow> parse_result" where
  "parse_infix_expression rc toks left ps =
     (let operator = lit_str (current_literal toks ps);
          precedence = current_precedence toks ps in
      case rc (ParseExpression precedence) (advance toks ps) of
        None \<Rightarrow> None
      | Some (right, ps1) \<Rightarrow> Some (InfixExpression left operator right, ps1))"

definition parse_call_expression ::
  "parser_rec \<Rightarrow> token list \<Rightarrow> node \<Rightarrow> parser_state \<Rightarrow> parse_result" where
  "parse_call_expression rc toks function ps =
     (let ps1 = advance toks ps in
      if current_token_is toks ps1 T_RPAREN then Some (CallExpression function [], ps1)
      else rc (CallLoop function []) ps1)"

definition parse_call_loop ::
  "parser_rec \<Rightarrow> token list \<Rightarrow> node \<Rightarrow> node list \<Rightarrow> parser_state \<Rightarrow> parse_result" where
  "parse_call_loop rc toks function arguments ps =
     (case rc (ParseExpression LOWEST) ps of
        None \<Rightarrow> None
      | Some (arg, ps1) \<Rightarrow>
          if arg \<noteq> NoneNode then
            (let arguments1 = arguments @ [arg] in
             if peek_token_is toks ps1 T_COMMA then
               rc (CallLoop function arguments1) (advance toks (advance toks ps1))
             else if peek_token_is toks ps1 T_RPAREN then
               Some (CallExpression function arguments1, advance toks ps1)
             else Some (CallExpression function arguments1,
                        add_error ''Expected , or ) after argument'' ps1))
          else Some (CallExpression function arguments, ps1))"

definition parse_return_statement :: "parser_rec \<Rightarrow> token list \<Rightarrow> parser_state \<Rightarrow> parse_result" where
  "parse_return_statement rc toks ps =
     (let ps1 = advance toks ps in
      if current_token_is toks ps1 T_RBRACE \<or> current_token_is toks ps1 T_EOF
      then Some (ReturnStatement NoneNode, ps1)
      else map_option (\<lambda>(v, ps2). (ReturnStatement v, ps2)) (rc (ParseExpression LOWEST) ps1))"

definition parse_assignment_or_expression_statement ::
  "parser_rec \<Rightarrow> token list \<Rightarrow> parser_state \<Rightarrow> parse_result" where
  "parse_assignment_or_expression_statement rc toks ps =
     (case rc (ParseExpression LOWEST) ps of
        None \<Rightarrow> None
      | Some (expr, ps1) \<Rightarrow>
          if expr = NoneNode then Some (NoneNode, ps1)
          else if peek_token_is toks ps1 T_ASSIGN then
            (case rc (ParseExpression LOWEST) (advance toks (advance toks ps1)) of
               None \<Rightarrow> None
             | Some (v, ps2) \<Rightarrow>
                 if v = NoneNode then Some (NoneNode, ps2)
                 else Some (AssignStatement expr v, ps2))
          else Some (ExpressionStatement expr, ps1))"

definition parse_function_statement ::
  "nat \<Rightarrow> parser_rec \<Rightarrow> token list \<Rightarrow> parser_state \<Rightarrow> parse_result" where
  "parse_function_statement n rc toks ps =
     (case expect_peek toks ps T_IDENT of
        (False, ps1) \<Rightarrow> Some (NoneNode, ps1)
      | (True, ps1) \<Rightarrow>
          (let name = lit_str (current_literal toks ps1) in
           case expect_peek toks ps1 T_LPAREN of
             (False, ps2) \<Rightarrow> Some (NoneNode, ps2)
           | (True, ps2) \<Rightarrow>
               (case parse_function_parameters n toks ps2 of
                  None \<Rightarrow> None
                | Some (parameters, ps3) \<Rightarrow>
                    (case expect_peek toks ps3 T_LBRACE of
                       (False, ps4) \<Rightarrow> Some (NoneNode, ps4)
                     | (True, ps4) \<Rightarrow>
                         (case rc ParseBlockStatement ps4 of
                            None \<Rightarrow> None
                          | Some (body, ps5) \<Rightarrow>
                              Some (FunctionStatement name parameters body, ps5))))))"

definition parse_class_statement :: "parser_rec \<Rightarrow> token list \<Rightarrow> parser_state \<Rightarrow> parse_result" where
  "parse_class_statement rc toks ps =
     (case expect_peek toks ps T_IDENT of
        (False, ps1) \<Rightarrow> Some (NoneNode, ps1)
      | (True, ps1) \<Rightarrow>
          (let name = lit_str (current_literal toks ps1) in
           case expect_peek toks ps1 T_LBRACE of
             (False, ps2) \<Rightarrow> Some (NoneNode, ps2)
           | (True, ps2) \<Rightarrow> rc (ClassLoop name []) (advance toks ps2)))"

definition parse_class_loop ::
  "parser_rec \<Rightarrow> token list \<Rightarrow> string \<Rightarrow> node list \<Rightarrow> parser_state \<Rightarrow> parse_result" where
  "parse_class_loop rc toks name methods ps =
     (if \<not> current_token_is toks ps T_RBRACE \<and> \<not> current_token_is toks ps T_EOF then
        (if current_token_is toks ps T_FX then
           (case rc ParseFunctionStatement ps of
              None \<Rightarrow> None
            | Some (method, ps1) \<Rightarrow>
                rc (ClassLoop name (if method \<noteq> NoneNode then methods @ [method] else methods))
                   (advance toks ps1))
         else rc (ClassLoop name methods) (advance toks ps))
      else Some (ClassStatement name methods, ps))"

definition parse_block_statement :: "parser_rec \<Rightarrow> token list \<Rightarrow> parser_state \<Rightarrow> parse_result" where
  "parse_block_statement rc toks ps = rc (BlockLoop []) (advance toks ps)"

definition parse_block_loop ::
  "parser_rec \<Rightarrow> token list \<Rightarrow> node list \<Rightarrow> parser_state \<Rightarrow> parse_result" where
  "parse_block_loop rc toks statements ps =
     (if \<not> current_token_is toks ps T_RBRACE \<and> \<not> current_token_is toks ps T_EOF then
        (case rc ParseStatement ps of
           None \<Rightarrow> None
         | Some (stmt, ps1) \<Rightarrow>
             rc (BlockLoop (if stmt \<noteq> NoneNode then statements @ [stmt] else statements))
                (advance toks ps1))
      else Some (BlockStatement statements, ps))"

definition parse_statement ::
  "nat \<Rightarrow> parser_rec \<Rightarrow> token list \<Rightarrow> parser_state \<Rightarrow> parse_result" where
  "parse_statement n rc toks ps =
     (case current_token toks ps of
        None \<Rightarrow> Some (NoneNode, ps)
      | Some tok \<Rightarrow>
          if ttype tok = T_BAG then Some (parse_package_statement toks ps)
          else if ttype tok = T_LOAD then parse_load_statement n toks ps
          else if ttype tok = T_FX then rc ParseFunctionStatement ps
          else if ttype tok = T_CLX then parse_class_statement rc toks ps
          else if ttype tok = T_RETURN then parse_return_statement rc toks ps
          else if ttype tok = T_LBRACE then rc ParseBlockStatement ps
          else parse_assignment_or_expression_statement rc toks ps)"

definition parse_program_loop ::
  "parser_rec \<Rightarrow> token list \<Rightarrow> node list \<Rightarrow> parser_state \<Rightarrow> parse_result" where
  "parse_program_loop rc toks statements ps =
     (if \<not> current_token_is toks ps T_EOF then
        (case rc ParseStatement ps of
           None \<Rightarrow> None
         | Some (stmt, ps1) \<Rightarrow>
             rc (ProgramLoop (if stmt \<noteq> NoneNode then statements @ [stmt] else statements))
                (advance toks ps1))
      else Some (Program statements, ps))"

definition parser_dispatch ::
  "nat \<Rightarrow> parser_rec \<Rightarrow> token list \<Rightarrow> parser_call \<Rightarrow> parser_state \<Rightarrow> parse_result" where
  "parser_dispatch n rc toks c ps =
     (case c of
        ParseExpression precedence \<Rightarrow> parse_expression rc toks precedence ps
      | ExpressionLoop precedence left_expr \<Rightarrow> parse_expression_loop rc toks precedence left_expr ps
      | ParsePrefixExpression \<Rightarrow> parse_prefix_expression rc toks ps
      | ParseGroupedExpression \<Rightarrow> parse_grouped_expression rc toks ps
      | ParseInfixExpression left \<Rightarrow> parse_infix_expression rc toks left ps
      | ParseCallExpression function \<Rightarrow> parse_call_expression rc toks function ps
      | CallLoop function arguments \<Rightarrow> parse_call_loop rc toks function arguments ps
      | ParseStatement \<Rightarrow> parse_statement n rc toks ps
      | ParseFunctionStatement \<Rightarrow> parse_function_statement n rc toks ps
      | ClassLoop name methods \<Rightarrow> parse_class_loop rc toks name methods ps
      | ParseBlockStatement \<Rightarrow> parse_block_statement rc toks ps
      | BlockLoop statements \<Rightarrow> parse_block_loop rc toks statements ps
      | ProgramLoop statements \<Rightarrow> parse_program_loop rc toks statements ps)"

primrec parser_run :: "nat \<Rightarrow> token list \<Rightarrow> parser_call \<Rightarrow> parser_state \<Rightarrow> parse_result" where
  "parser_run 0 toks c ps = None"
| "parser_run (Suc n) toks c ps = parser_dispatch n (parser_run n toks) toks c ps"

text \<open>
  \<open>Parser(lexer).parse_program()\<close> on a token list: the program and the error list.
\<close>

definition parse_program :: "nat \<Rightarrow> token list \<Rightarrow> (node \<times> string list) option" where
  "parse_program n toks =
     map_option (\<lambda>(program, ps). (program, errors ps))
       (parser_run n toks (ProgramLoop []) \<lparr>current_pos = 0, errors = []\<rparr>)"

section \<open>Runtime objects (object/object.py, object/environment.py)\<close>

text \<open>
  An \<open>Environment\<close> object is a store (a dict) and an immutable \<open>outer\<close> reference.
  Environments are shared by reference, so the stores live in a heap indexed by frame
  address; an environment value is the address of its own store together with its outer
  environment.
\<close>

type_synonym addr = nat

datatype environment = Environment (frame: addr) (outer: "environment option")

text \<open>
  Objects compared with Python's \<open>is\<close> carry an identity: \<open>Function\<close>, \<open>Class\<close> and
  \<open>ReturnValue\<close> objects an object id, an \<open>Instance\<close> the address of its field store, a
  \<open>Module\<close> the address of its public store, a \<open>Builtin\<close> its name (the registry holds
  one object per name). \<open>TRUE\<close>, \<open>FALSE\<close> and \<open>NIL\<close> are the singletons.
\<close>

datatype obj =
    Integer int
  | String string
  | Boolean bool
  | NIL
  | ReturnValue obj nat
  | Error string
  | Function "string list" node environment string nat
  | Class string "(string \<times> obj) list" nat
  | Instance obj environment
  | Builtin string
  | Module string string environment environment string

abbreviation TRUE :: obj where "TRUE \<equiv> Boolean True"
abbreviation FALSE :: obj where "FALSE \<equiv> Boolean False"

definition native_bool_to_boolean_object :: "bool \<Rightarrow> obj" where
  "native_bool_to_boolean_object input_bool = (if input_bool then TRUE else FALSE)"

fun type_of :: "obj \<Rightarrow> string" where
  "type_of (Integer _) = ''INTEGER''"
| "type_of (String _) = ''STRING''"
| "type_of (Boolean _) = ''BOOLEAN''"
| "type_of NIL = ''NIL''"
| "type_of (ReturnValue _ _) = ''RETURN_VALUE''"
| "type_of (Error _) = ''ERROR''"
| "type_of (Function _ _ _ _ _) = ''FUNCTION''"
| "type_of (Class _ _ _) = ''CLASS''"
| "type_of (Instance _ _) = ''INSTANCE''"
| "type_of (Builtin _) = ''BUILTIN''"
| "type_of (Module _ _ _ _ _) = ''MODULE''"

fun is_truthy :: "obj \<Rightarrow> bool" where
  "is_truthy (Integer v) = (v \<noteq> 0)"
| "is_truthy (String v) = (length v > 0)"
| "is_truthy (Boolean v) = v"
| "is_truthy NIL = False"
| "is_truthy (Error _) = False"
| "is_truthy _ = True"

definition is_error :: "obj \<Rightarrow> bool" where
  "is_error ob = (type_of ob = ''ERROR'')"

definition is_return_value :: "obj \<Rightarrow> bool" where
  "is_return_value ob = (type_of ob = ''RETURN_VALUE'')"

text \<open>
  The interpreter state: the stores of all environments (each a dict, kept as an
  association list in insertion order), the counter that gives fresh frame addresses and
  object ids, the module manager's cache and loading stack, and standard output and input.
\<close>

record state =
  heap :: "addr \<Rightarrow> (string \<times> obj) list"
  next_id :: nat
  loaded_modules :: "(string \<times> obj) list"
  loading_stack :: "string list"
  stdout :: string
  stdin :: "string list"

fun env_get :: "state \<Rightarrow> environment \<Rightarrow> string \<Rightarrow> obj option" where
  "env_get s (Environment a out) name =
     (case map_of (heap s a) name of
        Some v \<Rightarrow> Some v
      | None \<Rightarrow> (case out of None \<Rightarrow> None | Some e \<Rightarrow> env_get s e name))"

definition env_set :: "environment \<Rightarrow> string \<Rightarrow> obj \<Rightarrow> state \<Rightarrow> state" where
  "env_set env name v s =
     s\<lparr>heap := (heap s)(frame env := AList.update name v (heap s (frame env)))\<rparr>"

fun env_has :: "state \<Rightarrow> environment \<Rightarrow> string \<Rightarrow> bool" where
  "env_has s (Environment a out) name =
     (map_of (heap s a) name \<noteq> None \<or> (case out of None \<Rightarrow> False | Some e \<Rightarrow> env_has s e name))"

fun env_update :: "environment \<Rightarrow> string \<Rightarrow> obj \<Rightarrow> state \<Rightarrow> bool \<times> state" where
  "env_update (Environment a out) name v s =
     (if map_of (heap s a) name \<noteq> None then (True, env_set (Environment a out) name v s)
      else (case out of
              None \<Rightarrow> (False, env_set (Environment a out) name v s)
            | Some e \<Rightarrow>
                if env_has s e name then env_update e name v s
                else (False, env_set (Environment a out) name v s)))"

definition env_items :: "state \<Rightarrow> environment \<Rightarrow> (string \<times> obj) list" where
  "env_items s env = heap s (frame env)"

text \<open>\<open>Environment(outer)\<close>: a new object with an empty store.\<close>

definition new_environment :: "environment option \<Rightarrow> state \<Rightarrow> environment \<times> state" where
  "new_environment out s =
     (Environment (next_id s) out,
      s\<lparr>heap := (heap s)(next_id s := []), next_id := Suc (next_id s)\<rparr>)"

definition new_enclosed_environment :: "environment \<Rightarrow> state \<Rightarrow> environment \<times> state" where
  "new_enclosed_environment env s = new_environment (Some env) s"

definition fresh_id :: "state \<Rightarrow> nat \<times> state" where
  "fresh_id s = (next_id s, s\<lparr>next_id := Suc (next_id s)\<rparr>)"

text \<open>The methods of \<open>Class\<close>, \<open>Instance\<close> and \<open>Module\<close>.\<close>

fun class_name :: "obj \<Rightarrow> string" where
  "class_name (Class name methods i) = name"
| "class_name _ = []"

fun get_method :: "obj \<Rightarrow> string \<Rightarrow> obj option" where
  "get_method (Class name methods i) m = map_of methods m"
| "get_method (Instance cls flds) m = get_method cls m"
| "get_method _ m = None"

definition get_field :: "state \<Rightarrow> environment \<Rightarrow> string \<Rightarrow> obj option" where
  "get_field s flds name = env_get s flds name"

definition set_field :: "environment \<Rightarrow> string \<Rightarrow> obj \<Rightarrow> state \<Rightarrow> state" where
  "set_field flds name v s = env_set flds name v s"

definition get_member :: "state \<Rightarrow> environment \<Rightarrow> string \<Rightarrow> obj option" where
  "get_member s public_env name = env_get s public_env name"

fun inspect :: "obj \<Rightarrow> string" where
  "inspect (Integer v) = str_int v"
| "inspect (String v) = [CHR 0x22] @ v @ [CHR 0x22]"
| "inspect (Boolean v) = (if v then ''true'' else ''false'')"
| "inspect NIL = ''nil''"
| "inspect (ReturnValue v i) = inspect v"
| "inspect (Error message) = ''ERROR: '' @ message"
| "inspect (Function parameters body env name i) =
     ''fx '' @ (if name \<noteq> [] then name else ''<anonymous>'')
       @ ''('' @ join '', '' parameters @ '') { ... }''"
| "inspect (Class name methods i) =
     ''clx '' @ name @ '' { '' @ join '', '' (map fst methods) @ '' }''"
| "inspect (Instance cls flds) = ''<'' @ class_name cls @ '' instance>''"
| "inspect (Builtin name) = ''<builtin function '' @ name @ ''>''"
| "inspect (Module name path env private_env package_name) = ''<module '' @ name @ ''>''"

section \<open>Built-in functions (evaluator/builtins.py)\<close>

text \<open>
  A call returns an object or leaves the interpreter: \<open>exit\<close> raises \<open>SystemExit\<close>,
  which no handler of the evaluator catches. \<open>None\<close> is a run that needs more nested
  calls of \<open>eval_node\<close> than the fuel allows.
\<close>

datatype outcome = Value obj | SystemExit int

type_synonym result = "(outcome \<times> state) option"

definition ret :: "obj \<Rightarrow> state \<Rightarrow> result" where
  "ret v s = Some (Value v, s)"

definition and_then :: "result \<Rightarrow> (obj \<Rightarrow> state \<Rightarrow> result) \<Rightarrow> result" where
  "and_then r f =
     (case r of
        None \<Rightarrow> None
      | Some (SystemExit code, s) \<Rightarrow> Some (SystemExit code, s)
      | Some (Value v, s) \<Rightarrow> f v s)"

definition lower :: "string \<Rightarrow> string" where
  "lower t = map (\<lambda>c. if CHR ''A'' \<le> c \<and> c \<le> CHR ''Z'' then char_of (of_char c + (32::nat)) else c) t"

text \<open>
  Python's \<open>int\<close> on a str: surrounding whitespace is stripped, a sign may come first,
  and the digits may be separated by single underscores. The interpreter's limit on the
  number of digits is not modelled.
\<close>

definition is_py_space :: "char \<Rightarrow> bool" where
  "is_py_space c = (let k = (of_char c :: nat) in
     (9 \<le> k \<and> k \<le> 13) \<or> k = 32 \<or> k = 133 \<or> k = 160)"

definition strip :: "string \<Rightarrow> string" where
  "strip t = rev (dropWhile is_py_space (rev (dropWhile is_py_space t)))"

fun digits_value :: "nat \<Rightarrow> string \<Rightarrow> nat option" where
  "digits_value acc [] = Some acc"
| "digits_value acc [c] = (if is_digit c then Some (10 * acc + digit_val c) else None)"
| "digits_value acc (c # d # cs) =
     (if is_digit c then
        (if d = CHR ''_'' then
           (case cs of [] \<Rightarrow> None
            | e # es \<Rightarrow> if is_digit e then digits_value (10 * acc + digit_val c) cs else None)
         else digits_value (10 * acc + digit_val c) (d # cs))
      else None)"

definition py_int :: "string \<Rightarrow> int option" where
  "py_int t =
     (case strip t of
        [] \<Rightarrow> None
      | c # cs \<Rightarrow>
          if c = CHR ''-'' then
            (if cs = [] then None else map_option (\<lambda>n. - int n) (digits_value 0 cs))
          else if c = CHR ''+'' then
            (if cs = [] then None else map_option int (digits_value 0 cs))
          else map_option int (digits_value 0 (c # cs)))"

definition print_part :: "obj \<Rightarrow> string" where
  "print_part arg =
     (case arg of
        String v \<Rightarrow> v
      | Integer v \<Rightarrow> str_int v
      | Boolean v \<Rightarrow> (if v then ''true'' else ''false'')
      | NIL \<Rightarrow> ''nil''
      | _ \<Rightarrow> inspect arg)"

definition builtin_print :: "obj list \<Rightarrow> state \<Rightarrow> result" where
  "builtin_print args s =
     (if args = [] then ret NIL (s\<lparr>stdout := stdout s @ [CHR 0x0A]\<rparr>)
      else ret NIL (s\<lparr>stdout := stdout s @ join '' '' (map print_part args) @ [CHR 0x0A]\<rparr>))"

definition builtin_len :: "obj list \<Rightarrow> obj" where
  "builtin_len args =
     (if length args \<noteq> 1 then
        Error (''Wrong number of arguments to len(): expected 1, got '' @ str_nat (length args))
      else (case hd args of
              String v \<Rightarrow> Integer (int (length v))
            | arg \<Rightarrow> Error (''len() not supported for '' @ type_of arg)))"

definition builtin_type :: "obj list \<Rightarrow> obj" where
  "builtin_type args =
     (if length args \<noteq> 1 then
        Error (''Wrong number of arguments to type(): expected 1, got '' @ str_nat (length args))
      else String (lower (type_of (hd args))))"

definition builtin_str :: "obj list \<Rightarrow> obj" where
  "builtin_str args =
     (if length args \<noteq> 1 then
        Error (''Wrong number of arguments to str(): expected 1, got '' @ str_nat (length args))
      else (case hd args of
              String v \<Rightarrow> String v
            | Integer v \<Rightarrow> String (str_int v)
            | Boolean v \<Rightarrow> String (if v then ''true'' else ''false'')
            | NIL \<Rightarrow> String ''nil''
            | arg \<Rightarrow> String (inspect arg)))"

definition builtin_int :: "obj list \<Rightarrow> obj" where
  "builtin_int args =
     (if length args \<noteq> 1 then
        Error (''Wrong number of arguments to int(): expected 1, got '' @ str_nat (length args))
      else (case hd args of
              Integer v \<Rightarrow> Integer v
            | String v \<Rightarrow>
                (case py_int v of
                   Some i \<Rightarrow> Integer i
                 | None \<Rightarrow> Error (''Cannot convert '' @ [CHR 0x27] @ v @ [CHR 0x27] @ '' to integer''))
            | Boolean v \<Rightarrow> Integer (if v then 1 else 0)
            | arg \<Rightarrow> Error (''Cannot convert '' @ type_of arg @ '' to integer'')))"

definition builtin_bool :: "obj list \<Rightarrow> obj" where
  "builtin_bool args =
     (if length args \<noteq> 1 then
        Error (''Wrong number of arguments to bool(): expected 1, got '' @ str_nat (length args))
      else native_bool_to_boolean_object (is_truthy (hd args)))"

text \<open>
  \<open>input\<close> writes the prompt and reads one line; at end of input it returns the empty
  string. A keyboard interrupt is not modelled.
\<close>

definition builtin_input :: "obj list \<Rightarrow> state \<Rightarrow> result" where
  "builtin_input args s =
     (if length args > 1 then
        ret (Error (''Wrong number of arguments to input(): expected 0 or 1, got ''
                    @ str_nat (length args))) s
      else
        (let prompt = (case args of
                         [] \<Rightarrow> []
                       | a # _ \<Rightarrow> (case a of String v \<Rightarrow> v | _ \<Rightarrow> inspect a));
             s1 = s\<lparr>stdout := stdout s @ prompt\<rparr>
         in case stdin s1 of
              [] \<Rightarrow> ret (String []) s1
            | l # ls \<Rightarrow> ret (String l) (s1\<lparr>stdin := ls\<rparr>)))"

definition builtin_exit :: "obj list \<Rightarrow> state \<Rightarrow> result" where
  "builtin_exit args s =
     (if length args > 1 then
        ret (Error (''Wrong number of arguments to exit(): expected 0 or 1, got ''
                    @ str_nat (length args))) s
      else (case args of
              [] \<Rightarrow> Some (SystemExit 0, s)
            | a # _ \<Rightarrow>
                (case a of
                   Integer v \<Rightarrow> Some (SystemExit v, s)
                 | _ \<Rightarrow> ret (Error ''Exit code must be an integer'') s)))"

definition BUILTINS :: "(string \<times> obj) list" where
  "BUILTINS = map (\<lambda>name. (name, Builtin name))
     [''print'', ''len'', ''type'', ''str'', ''int'', ''bool'', ''input'', ''exit'']"

text \<open>\<open>fn.fn(*args)\<close> for a \<open>Builtin\<close>: the native function registered under its name.\<close>

definition call_builtin :: "string \<Rightarrow> obj list \<Rightarrow> state \<Rightarrow> result" where
  "call_builtin name args s =
     (if name = ''print'' then builtin_print args s
      else if name = ''len'' then ret (builtin_len args) s
      else if name = ''type'' then ret (builtin_type args) s
      else if name = ''str'' then ret (builtin_str args) s
      else if name = ''int'' then ret (builtin_int args) s
      else if name = ''bool'' then ret (builtin_bool args) s
      else if name = ''input'' then builtin_input args s
      else builtin_exit args s)"

section \<open>Operators (evaluator/evaluator.py)\<close>

definition apply_integer_infix_operator :: "string \<Rightarrow> int \<Rightarrow> int \<Rightarrow> obj" where
  "apply_integer_infix_operator operator left_val right_val =
    (if operator = ''+'' then Integer (left_val + right_val)
     else if operator = ''-'' then Integer (left_val - right_val)
     else if operator = ''*'' then Integer (left_val * right_val)
     else if operator = ''/'' then
       (if right_val = 0 then Error ''Division by zero''
        else Integer (left_val div right_val))
     else if operator = ''<'' then native_bool_to_boolean_object (left_val < right_val)
     else if operator = ''>'' then native_bool_to_boolean_object (left_val > right_val)
     else if operator = ''<='' then native_bool_to_boolean_object (left_val \<le> right_val)
     else if operator = ''>='' then native_bool_to_boolean_object (left_val \<ge> right_val)
     else if operator = ''=='' then native_bool_to_boolean_object (left_val = right_val)
     else if operator = ''!='' then native_bool_to_boolean_object (left_val \<noteq> right_val)
     else Error (''Unknown integer operator: '' @ operator))"

definition apply_string_infix_operator :: "string \<Rightarrow> string \<Rightarrow> string \<Rightarrow> obj" where
  "apply_string_infix_operator operator left_val right_val =
    (if operator = ''+'' then String (left_val @ right_val)
     else if operator = ''=='' then native_bool_to_boolean_object (left_val = right_val)
     else if operator = ''!='' then native_bool_to_boolean_object (left_val \<noteq> right_val)
     else Error (''Unknown string operator: '' @ operator))"

text \<open>
  \<open>left is right\<close>: the same object. \<open>objects_equal\<close> asks this only of two objects
  of one type that are not Integer, String, Boolean or Nil.
\<close>

fun object_identity :: "obj \<Rightarrow> (nat + string) option" where
  "object_identity (ReturnValue v i) = Some (Inl i)"
| "object_identity (Function p b e n i) = Some (Inl i)"
| "object_identity (Class n m i) = Some (Inl i)"
| "object_identity (Instance c f) = Some (Inl (frame f))"
| "object_identity (Builtin n) = Some (Inr n)"
| "object_identity (Module n p e pe pk) = Some (Inl (frame e))"
| "object_identity _ = None"

definition same_object :: "obj \<Rightarrow> obj \<Rightarrow> bool" where
  "same_object left right =
     (type_of left = type_of right \<and> object_identity left \<noteq> None
      \<and> object_identity left = object_identity right)"

definition objects_equal :: "obj \<Rightarrow> obj \<Rightarrow> bool" where
  "objects_equal left right =
    (if type_of left \<noteq> type_of right then False
     else (case (left, right) of
             (Integer a, Integer b) \<Rightarrow> a = b
           | (String a, String b) \<Rightarrow> a = b
           | (Boolean a, Boolean b) \<Rightarrow> a = b
           | (NIL, NIL) \<Rightarrow> True
           | _ \<Rightarrow> same_object left right))"

definition apply_equality_operator :: "string \<Rightarrow> obj \<Rightarrow> obj \<Rightarrow> obj" where
  "apply_equality_operator operator left right =
    (if operator = ''=='' then native_bool_to_boolean_object (objects_equal left right)
     else if operator = ''!='' then native_bool_to_boolean_object (\<not> objects_equal left right)
     else Error (''Unknown equality operator: '' @ operator))"

definition apply_logical_operator :: "string \<Rightarrow> obj \<Rightarrow> obj \<Rightarrow> obj" where
  "apply_logical_operator operator left right =
    (if operator = ''&&'' then (if \<not> is_truthy left then left else right)
     else if operator = ''||'' then (if is_truthy left then left else right)
     else Error (''Unknown logical operator: '' @ operator))"

definition apply_infix_operator :: "string \<Rightarrow> obj \<Rightarrow> obj \<Rightarrow> obj" where
  "apply_infix_operator operator left right =
    (case (left, right) of
       (Integer a, Integer b) \<Rightarrow> apply_integer_infix_operator operator a b
     | (String a, String b) \<Rightarrow> apply_string_infix_operator operator a b
     | _ \<Rightarrow>
        if operator \<in> set [''=='', ''!=''] then apply_equality_operator operator left right
        else if operator \<in> set [''&&'', ''||''] then apply_logical_operator operator left right
        else Error (''Unknown operator: '' @ type_of left @ '' '' @ operator @ '' '' @ type_of right))"

definition apply_bang_operator :: "obj \<Rightarrow> obj" where
  "apply_bang_operator operand =
    (if operand = TRUE then FALSE
     else if operand = FALSE then TRUE
     else if operand = NIL then TRUE
     else FALSE)"

definition apply_minus_operator :: "obj \<Rightarrow> obj" where
  "apply_minus_operator operand =
    (case operand of
       Integer v \<Rightarrow> Integer (- v)
     | _ \<Rightarrow> Error (''Unknown operator: -'' @ type_of operand))"

definition apply_prefix_operator :: "string \<Rightarrow> obj \<Rightarrow> obj" where
  "apply_prefix_operator operator right =
    (if operator = ''!'' then apply_bang_operator right
     else if operator = ''-'' then apply_minus_operator right
     else Error (''Unknown prefix operator: '' @ operator))"

section \<open>Evaluator (evaluator/evaluator.py)\<close>

text \<open>
  Every function of the evaluator that evaluates a child node does so through
  \<open>eval_node\<close>. Below, each such function takes \<open>ev\<close>, the \<open>eval_node\<close> that the call
  reaches, as its first argument; \<open>eval_node\<close> itself closes the recursion.
\<close>

type_synonym evaluator = "node \<Rightarrow> environment \<Rightarrow> state \<Rightarrow> result"

fun eval_program :: "evaluator \<Rightarrow> node list \<Rightarrow> environment \<Rightarrow> obj \<Rightarrow> state \<Rightarrow> result" where
  "eval_program ev [] env res s = ret res s"
| "eval_program ev (statement # rest) env res s =
     and_then (ev statement env s) (\<lambda>r s1.
       case r of
         ReturnValue v i \<Rightarrow> ret v s1
       | Error m \<Rightarrow> ret r s1
       | _ \<Rightarrow> eval_program ev rest env r s1)"

fun eval_block_statement :: "evaluator \<Rightarrow> node list \<Rightarrow> environment \<Rightarrow> obj \<Rightarrow> state \<Rightarrow> result" where
  "eval_block_statement ev [] env res s = ret res s"
| "eval_block_statement ev (statement # rest) env res s =
     and_then (ev statement env s) (\<lambda>r s1.
       case r of
         ReturnValue v i \<Rightarrow> ret r s1
       | Error m \<Rightarrow> ret r s1
       | _ \<Rightarrow> eval_block_statement ev rest env r s1)"

definition eval_return_statement :: "evaluator \<Rightarrow> node \<Rightarrow> environment \<Rightarrow> state \<Rightarrow> result" where
  "eval_return_statement ev v env s =
     (if v \<noteq> NoneNode then
        and_then (ev v env s) (\<lambda>val s1.
          if is_error val then ret val s1
          else (case fresh_id s1 of (i, s2) \<Rightarrow> ret (ReturnValue val i) s2))
      else (case fresh_id s of (i, s1) \<Rightarrow> ret (ReturnValue NIL i) s1))"

definition eval_member_assignment ::
  "evaluator \<Rightarrow> node \<Rightarrow> string \<Rightarrow> obj \<Rightarrow> environment \<Rightarrow> state \<Rightarrow> result" where
  "eval_member_assignment ev object member v env s =
     and_then (ev object env s) (\<lambda>ob s1.
       if is_error ob then ret ob s1
       else (case ob of
               Instance cls flds \<Rightarrow> ret v (set_field flds member v s1)
             | _ \<Rightarrow> ret (Error (''Cannot assign to member of '' @ type_of ob)) s1))"

text \<open>The repr of the Python class of a node, as \<open>type(node)\<close> prints it.\<close>

fun node_class_name :: "node \<Rightarrow> string" where
  "node_class_name NoneNode = ''NoneType''"
| "node_class_name (Program _) = ''zen_ast.ast.Program''"
| "node_class_name (PackageStatement _) = ''zen_ast.ast.PackageStatement''"
| "node_class_name (LoadStatement _) = ''zen_ast.ast.LoadStatement''"
| "node_class_name (FunctionStatement _ _ _) = ''zen_ast.ast.FunctionStatement''"
| "node_class_name (ClassStatement _ _) = ''zen_ast.ast.ClassStatement''"
| "node_class_name (ReturnStatement _) = ''zen_ast.ast.ReturnStatement''"
| "node_class_name (ExpressionStatement _) = ''zen_ast.ast.ExpressionStatement''"
| "node_class_name (AssignStatement _ _) = ''zen_ast.ast.AssignStatement''"
| "node_class_name (BlockStatement _) = ''zen_ast.ast.BlockStatement''"
| "node_class_name (Identifier _) = ''zen_ast.ast.Identifier''"
| "node_class_name (IntegerLiteral _) = ''zen_ast.ast.IntegerLiteral''"
| "node_class_name (StringLiteral _) = ''zen_ast.ast.StringLiteral''"
| "node_class_name (BooleanLiteral _) = ''zen_ast.ast.BooleanLiteral''"
| "node_class_name NilLiteral = ''zen_ast.ast.NilLiteral''"
| "node_class_name SelfExpression = ''zen_ast.ast.SelfExpression''"
| "node_class_name (PrefixExpression _ _) = ''zen_ast.ast.PrefixExpression''"
| "node_class_name (InfixExpression _ _ _) = ''zen_ast.ast.InfixExpression''"
| "node_class_name (CallExpression _ _) = ''zen_ast.ast.CallExpression''"
| "node_class_name (MemberAccessExpression _ _) = ''zen_ast.ast.MemberAccessExpression''"

definition eval_assign_statement :: "evaluator \<Rightarrow> node \<Rightarrow> node \<Rightarrow> environment \<Rightarrow> state \<Rightarrow> result" where
  "eval_assign_statement ev target v env s =
     and_then (ev v env s) (\<lambda>val s1.
       if is_error val then ret val s1
       else (case target of
               Identifier name \<Rightarrow> ret val (env_set env name val s1)
             | MemberAccessExpression object member \<Rightarrow>
                 eval_member_assignment ev object member val env s1
             | _ \<Rightarrow> ret (Error (''Invalid assignment target: <class '' @ [CHR 0x27]
                                 @ node_class_name target @ [CHR 0x27] @ ''>'')) s1))"

definition eval_package_statement :: "string \<Rightarrow> environment \<Rightarrow> state \<Rightarrow> result" where
  "eval_package_statement name env s = ret NIL (env_set env ''__package__'' (String name) s)"

definition endswith :: "string \<Rightarrow> string \<Rightarrow> bool" where
  "endswith t suffix = (length suffix \<le> length t \<and> drop (length t - length suffix) t = suffix)"

definition startswith :: "string \<Rightarrow> string \<Rightarrow> bool" where
  "startswith t pre = (take (length pre) t = pre)"

definition extract_module_name :: "string \<Rightarrow> string" where
  "extract_module_name module_path =
     (let p = (if endswith module_path ''.zen''
               then take (length module_path - 4) module_path else module_path);
          q = map (\<lambda>c. if c = CHR 0x5C then CHR ''/'' else c) p
      in rev (takeWhile (\<lambda>c. c \<noteq> CHR ''/'') (rev q)))"

text \<open>\<open>str.isupper\<close> on one character with a code point below 256.\<close>

definition isupper :: "char \<Rightarrow> bool" where
  "isupper c = (let k = (of_char c :: nat) in
     (65 \<le> k \<and> k \<le> 90) \<or> (192 \<le> k \<and> k \<le> 222 \<and> k \<noteq> 215))"

definition is_public_name :: "string \<Rightarrow> bool" where
  "is_public_name name =
     (if startswith name ''__'' then False
      else (case name of [] \<Rightarrow> False | c # _ \<Rightarrow> isupper c))"

text \<open>
  The file system the interpreter runs on: the working directory, which paths are files,
  the absolute form of a path, and reading a file (which raises \<open>FileNotFoundError\<close> or
  another exception with its message).
\<close>

datatype read_error = FileNotFoundError | OtherException string

record host =
  getcwd :: string
  isfile :: "string \<Rightarrow> bool"
  abspath :: "string \<Rightarrow> string"
  read_file :: "string \<Rightarrow> read_error + string"

definition path_join :: "string \<Rightarrow> string \<Rightarrow> string" where
  "path_join a b =
     (if startswith b ''/'' then b
      else if a = [] \<or> endswith a ''/'' then a @ b
      else a @ ''/'' @ b)"

definition search_paths :: "string list" where
  "search_paths = [''.'', ''./examples'', ''./lib'', ''./modules'']"

definition resolve_module_path :: "host \<Rightarrow> string \<Rightarrow> string \<Rightarrow> string option" where
  "resolve_module_path h module_path current_dir =
     (let test_paths = (if endswith module_path ''.zen'' then [module_path]
                        else [module_path @ ''.zen'', module_path @ ''/main.zen'',
                              module_path @ ''/index.zen'']);
          all_search_paths = current_dir # search_paths
      in map_option (abspath h)
           (find (isfile h)
              (concat (map (\<lambda>search_path. map (path_join search_path) test_paths)
                         all_search_paths))))"

definition is_loading :: "state \<Rightarrow> string \<Rightarrow> bool" where
  "is_loading s path = (path \<in> set (loading_stack s))"

definition start_loading :: "string \<Rightarrow> state \<Rightarrow> state" where
  "start_loading path s = s\<lparr>loading_stack := loading_stack s @ [path]\<rparr>"

definition finish_loading :: "string \<Rightarrow> state \<Rightarrow> state" where
  "finish_loading path s =
     (if path \<in> set (loading_stack s) then s\<lparr>loading_stack := remove1 path (loading_stack s)\<rparr>
      else s)"

definition get_cached_module :: "state \<Rightarrow> string \<Rightarrow> obj option" where
  "get_cached_module s path = map_of (loaded_modules s) path"

definition cache_module :: "string \<Rightarrow> obj \<Rightarrow> state \<Rightarrow> state" where
  "cache_module path modl s = s\<lparr>loaded_modules := AList.update path modl (loaded_modules s)\<rparr>"

text \<open>Python's \<open>repr\<close> of a one-character str, for the message of a \<open>LexerError\<close>.\<close>

definition hex_digit :: "nat \<Rightarrow> char" where
  "hex_digit d = (if d < 10 then char_of (48 + d) else char_of (87 + d))"

definition repr_char :: "char \<Rightarrow> string" where
  "repr_char c = (let k = (of_char c :: nat) in
     if c = CHR 0x27 then [CHR 0x22, c, CHR 0x22]
     else if c = CHR 0x5C then [CHR 0x27, c, c, CHR 0x27]
     else if c = CHR 0x0A then [CHR 0x27, CHR 0x5C, CHR ''n'', CHR 0x27]
     else if c = CHR 0x09 then [CHR 0x27, CHR 0x5C, CHR ''t'', CHR 0x27]
     else if c = CHR 0x0D then [CHR 0x27, CHR 0x5C, CHR ''r'', CHR 0x27]
     else if k < 32 \<or> (127 \<le> k \<and> k \<le> 160) \<or> k = 173 then
       [CHR 0x27, CHR 0x5C, CHR ''x'', hex_digit (k div 16), hex_digit (k mod 16), CHR 0x27]
     else [CHR 0x27, c, CHR 0x27])"

fun lexer_error_str :: "lexer_error \<Rightarrow> string" where
  "lexer_error_str (LexerError c lno cno) =
     ''Lexer error at line '' @ str_nat lno @ '', column '' @ str_nat cno
       @ '': Illegal character: '' @ repr_char c"

text \<open>\<open>Parser(Lexer(source)).parse_program()\<close> and the parser's error list.\<close>

definition parse_source :: "nat \<Rightarrow> string \<Rightarrow> lexer_error + (node \<times> string list) option" where
  "parse_source n source =
     (case tokenize source of Inl e \<Rightarrow> Inl e | Inr toks \<Rightarrow> Inr (parse_program n toks))"

text \<open>
  \<open>load_module\<close>. The body of the \<open>try\<close> is \<open>load_module_body\<close>, and the part of
  it that follows the evaluation of the module's program is \<open>make_module\<close>. The
  \<open>finally\<close> clause runs \<open>finish_loading\<close> on every way out of the \<open>try\<close>, also
  when \<open>SystemExit\<close> passes through. \<open>n\<close> is the fuel of the parser. The
  \<open>Evaluator()\<close> built only to read the builtin registry is left out: the module
  environment receives the entries of \<open>BUILTINS\<close> in their order.
\<close>

definition make_module ::
  "string \<Rightarrow> string \<Rightarrow> environment \<Rightarrow> environment \<Rightarrow> obj \<Rightarrow> state \<Rightarrow> result" where
  "make_module module_path file_path env module_env res s3 =
     (if is_error res then ret res s3
      else
        (let package_name =
               (case env_get s3 module_env ''__package__'' of
                  Some (String v) \<Rightarrow> v
                | _ \<Rightarrow> [])
         in (case new_environment None s3 of (public_env, s4) \<Rightarrow>
              (let s5 = fold (\<lambda>(name, ob). if is_public_name name
                               then env_set public_env name ob else id)
                         (env_items s4 module_env) s4;
                   modl = Module (extract_module_name module_path) file_path
                            public_env module_env package_name;
                   s6 = cache_module module_path modl s5;
                   s7 = env_set env (extract_module_name module_path) modl s6
               in ret modl s7))))"

definition load_module_body ::
  "nat \<Rightarrow> evaluator \<Rightarrow> host \<Rightarrow> string \<Rightarrow> string \<Rightarrow> environment \<Rightarrow> state \<Rightarrow> result" where
  "load_module_body n ev h module_path file_path env s =
     (case read_file h file_path of
        Inl FileNotFoundError \<Rightarrow> ret (Error (''Module file not found: '' @ module_path)) s
      | Inl (OtherException msg) \<Rightarrow>
          ret (Error (''Error loading module '' @ module_path @ '': '' @ msg)) s
      | Inr source \<Rightarrow>
          (case parse_source n source of
             Inl e \<Rightarrow>
               ret (Error (''Error loading module '' @ module_path @ '': '' @ lexer_error_str e)) s
           | Inr None \<Rightarrow> None
           | Inr (Some (program, errs)) \<Rightarrow>
               if errs \<noteq> [] then
                 ret (Error (''Parse errors in '' @ module_path @ '': '' @ join ''; '' errs)) s
               else
                 (case new_environment None s of (module_env, s1) \<Rightarrow>
                    and_then
                      (ev program module_env
                         (fold (\<lambda>(name, builtin). env_set module_env name builtin)
                            BUILTINS s1))
                      (make_module module_path file_path env module_env))))"

definition load_module ::
  "nat \<Rightarrow> evaluator \<Rightarrow> host \<Rightarrow> string \<Rightarrow> environment \<Rightarrow> state \<Rightarrow> result" where
  "load_module n ev h module_path env s =
     (case get_cached_module s module_path of
        Some cached_module \<Rightarrow>
          ret cached_module (env_set env (extract_module_name module_path) cached_module s)
      | None \<Rightarrow>
          if is_loading s module_path then
            ret (Error (''Circular import detected: '' @ module_path)) s
          else
            (case resolve_module_path h module_path (getcwd h) of
               None \<Rightarrow> ret (Error (''Module not found: '' @ module_path)) s
             | Some file_path \<Rightarrow>
                 (case load_module_body n ev h module_path file_path env
                         (start_loading module_path s) of
                    None \<Rightarrow> None
                  | Some (out, s1) \<Rightarrow> Some (out, finish_loading module_path s1))))"

fun eval_load_statement ::
  "nat \<Rightarrow> evaluator \<Rightarrow> host \<Rightarrow> string list \<Rightarrow> environment \<Rightarrow> obj \<Rightarrow> state \<Rightarrow> result" where
  "eval_load_statement n ev h [] env res s = ret res s"
| "eval_load_statement n ev h (module_path # rest) env res s =
     and_then (load_module n ev h module_path env s) (\<lambda>module_result s1.
       if is_error module_result then ret module_result s1
       else eval_load_statement n ev h rest env module_result s1)"

definition eval_function_statement ::
  "string \<Rightarrow> string list \<Rightarrow> node \<Rightarrow> environment \<Rightarrow> state \<Rightarrow> result" where
  "eval_function_statement name parameters body env s =
     (case fresh_id s of (i, s1) \<Rightarrow>
        let function = Function parameters body env name i
        in ret function (env_set env name function s1))"

text \<open>
  \<open>eval_class_statement\<close>: the loop that fills the \<open>methods\<close> dict; a node of the list
  that is not a \<open>FunctionStatement\<close> does not occur (the parser puts only those in).
\<close>

fun class_methods ::
  "node list \<Rightarrow> environment \<Rightarrow> (string \<times> obj) list \<Rightarrow> state \<Rightarrow> (string \<times> obj) list \<times> state" where
  "class_methods [] env methods s = (methods, s)"
| "class_methods (FunctionStatement name parameters body # rest) env methods s =
     (case fresh_id s of (i, s1) \<Rightarrow>
        class_methods rest env
          (AList.update name (Function parameters body env name i) methods) s1)"
| "class_methods (_ # rest) env methods s = class_methods rest env methods s"

definition eval_class_statement :: "string \<Rightarrow> node list \<Rightarrow> environment \<Rightarrow> state \<Rightarrow> result" where
  "eval_class_statement name method_nodes env s =
     (case class_methods method_nodes env [] s of (methods, s1) \<Rightarrow>
      case fresh_id s1 of (i, s2) \<Rightarrow>
        let cls = Class name methods i in ret cls (env_set env name cls s2))"

definition eval_self_expression :: "environment \<Rightarrow> state \<Rightarrow> result" where
  "eval_self_expression env s =
     (case env_get s env ''self'' of
        None \<Rightarrow> ret (Error ([CHR 0x27] @ ''self'' @ [CHR 0x27] @ '' used outside of instance method'')) s
      | Some self_obj \<Rightarrow> ret self_obj s)"

definition eval_identifier :: "string \<Rightarrow> environment \<Rightarrow> state \<Rightarrow> result" where
  "eval_identifier name env s =
     (case env_get s env name of
        None \<Rightarrow> ret (Error (''Identifier not found: '' @ name)) s
      | Some val \<Rightarrow> ret val s)"

definition eval_prefix_expression ::
  "evaluator \<Rightarrow> string \<Rightarrow> node \<Rightarrow> environment \<Rightarrow> state \<Rightarrow> result" where
  "eval_prefix_expression ev operator right_node env s =
     and_then (ev right_node env s) (\<lambda>right s1.
       if is_error right then ret right s1
       else ret (apply_prefix_operator operator right) s1)"

definition eval_infix_expression ::
  "evaluator \<Rightarrow> node \<Rightarrow> string \<Rightarrow> node \<Rightarrow> environment \<Rightarrow> state \<Rightarrow> result" where
  "eval_infix_expression ev left_node operator right_node env s =
     and_then (ev left_node env s) (\<lambda>left s1.
       if is_error left then ret left s1
       else and_then (ev right_node env s1) (\<lambda>right s2.
         if is_error right then ret right s2
         else ret (apply_infix_operator operator left right) s2))"

fun bind_parameters :: "environment \<Rightarrow> string list \<Rightarrow> obj list \<Rightarrow> state \<Rightarrow> state" where
  "bind_parameters env (param # params) (arg # args) s =
     bind_parameters env params args (env_set env param arg s)"
| "bind_parameters env _ _ s = s"

definition apply_user_function :: "evaluator \<Rightarrow> obj \<Rightarrow> obj list \<Rightarrow> state \<Rightarrow> result" where
  "apply_user_function ev fn args s =
     (case fn of
        Function parameters body fenv name i \<Rightarrow>
          if length args \<noteq> length parameters then
            ret (Error (''Wrong number of arguments: expected '' @ str_nat (length parameters)
                        @ '', got '' @ str_nat (length args))) s
          else
            (case new_enclosed_environment fenv s of (extended_env, s1) \<Rightarrow>
               and_then (ev body extended_env (bind_parameters extended_env parameters args s1))
                 (\<lambda>evaluated s2.
                    case evaluated of
                      ReturnValue v j \<Rightarrow> ret v s2
                    | _ \<Rightarrow> ret evaluated s2))
      | _ \<Rightarrow> None)"

definition apply_class_constructor :: "evaluator \<Rightarrow> obj \<Rightarrow> obj list \<Rightarrow> state \<Rightarrow> result" where
  "apply_class_constructor ev cls args s =
     (case new_environment None s of (flds, s1) \<Rightarrow>
        let instance = Instance cls flds in
        case get_method cls ''__init__'' of
          Some init_method \<Rightarrow>
            and_then (apply_user_function ev init_method (instance # args) s1) (\<lambda>res s2.
              if is_error res then ret res s2 else ret instance s2)
        | None \<Rightarrow> ret instance s1)"

definition apply_function :: "evaluator \<Rightarrow> obj \<Rightarrow> obj list \<Rightarrow> state \<Rightarrow> result" where
  "apply_function ev fn args s =
     (case fn of
        Function parameters body fenv name i \<Rightarrow> apply_user_function ev fn args s
      | Builtin name \<Rightarrow> call_builtin name args s
      | Class name methods i \<Rightarrow> apply_class_constructor ev fn args s
      | _ \<Rightarrow> ret (Error (''Not a function: '' @ type_of fn)) s)"

fun eval_arguments ::
  "evaluator \<Rightarrow> node list \<Rightarrow> environment \<Rightarrow> obj list \<Rightarrow> state
   \<Rightarrow> (obj list \<Rightarrow> state \<Rightarrow> result) \<Rightarrow> result" where
  "eval_arguments ev [] env args s k = k args s"
| "eval_arguments ev (arg_node # rest) env args s k =
     and_then (ev arg_node env s) (\<lambda>arg s1.
       if is_error arg then ret arg s1
       else eval_arguments ev rest env (args @ [arg]) s1 k)"

definition eval_call_expression ::
  "evaluator \<Rightarrow> node \<Rightarrow> node list \<Rightarrow> environment \<Rightarrow> state \<Rightarrow> result" where
  "eval_call_expression ev function_node arguments env s =
     and_then (ev function_node env s) (\<lambda>function s1.
       if is_error function then ret function s1
       else eval_arguments ev arguments env [] s1 (apply_function ev function))"

definition create_bound_method :: "obj \<Rightarrow> obj \<Rightarrow> state \<Rightarrow> obj \<times> state" where
  "create_bound_method method instance s =
     (case method of
        Function parameters body menv name i \<Rightarrow>
          (case new_enclosed_environment menv s of (bound_env, s1) \<Rightarrow>
           case fresh_id (env_set bound_env ''self'' instance s1) of (j, s2) \<Rightarrow>
             (Function (if parameters \<noteq> [] \<and> hd parameters = ''self'' then tl parameters
                        else parameters) body bound_env name j, s2))
      | _ \<Rightarrow> (method, s))"

definition eval_member_access_expression ::
  "evaluator \<Rightarrow> node \<Rightarrow> string \<Rightarrow> environment \<Rightarrow> state \<Rightarrow> result" where
  "eval_member_access_expression ev object member env s =
     and_then (ev object env s) (\<lambda>ob s1.
       if is_error ob then ret ob s1
       else (case ob of
               Instance cls flds \<Rightarrow>
                 (case get_field s1 flds member of
                    Some field \<Rightarrow> ret field s1
                  | None \<Rightarrow>
                      (case get_method ob member of
                         Some method \<Rightarrow>
                           (case create_bound_method method ob s1 of (bound, s2) \<Rightarrow> ret bound s2)
                       | None \<Rightarrow>
                           ret (Error (''Attribute '' @ [CHR 0x27] @ member @ [CHR 0x27]
                                       @ '' not found on '' @ class_name cls @ '' instance'')) s1))
             | Module name path public_env private_env package_name \<Rightarrow>
                 (case get_member s1 public_env member of
                    Some m \<Rightarrow> ret m s1
                  | None \<Rightarrow>
                      ret (Error (''Module '' @ [CHR 0x27] @ name @ [CHR 0x27]
                                  @ '' has no public attribute '' @ [CHR 0x27] @ member @ [CHR 0x27])) s1)
             | Class name methods i \<Rightarrow>
                 (case get_method ob member of
                    Some method \<Rightarrow> ret method s1
                  | None \<Rightarrow>
                      ret (Error (''Class '' @ [CHR 0x27] @ name @ [CHR 0x27]
                                  @ '' has no attribute '' @ [CHR 0x27] @ member @ [CHR 0x27])) s1)
             | _ \<Rightarrow>
                 ret (Error (''Cannot access member '' @ [CHR 0x27] @ member @ [CHR 0x27]
                             @ '' on '' @ type_of ob)) s1))"

text \<open>
  \<open>eval_node\<close>: the dispatch on the class of the node, and the recursion. The fuel
  bounds the depth of nested \<open>eval_node\<close> calls.
\<close>

definition eval_dispatch ::
  "nat \<Rightarrow> host \<Rightarrow> evaluator \<Rightarrow> node \<Rightarrow> environment \<Rightarrow> state \<Rightarrow> result" where
  "eval_dispatch n h ev node env s =
     (case node of
        NoneNode \<Rightarrow> ret NIL s
      | Program statements \<Rightarrow> eval_program ev statements env NIL s
      | BlockStatement statements \<Rightarrow> eval_block_statement ev statements env NIL s
      | ExpressionStatement expression \<Rightarrow> ev expression env s
      | ReturnStatement v \<Rightarrow> eval_return_statement ev v env s
      | AssignStatement target v \<Rightarrow> eval_assign_statement ev target v env s
      | PackageStatement name \<Rightarrow> eval_package_statement name env s
      | LoadStatement imports \<Rightarrow> eval_load_statement n ev h imports env NIL s
      | FunctionStatement name parameters body \<Rightarrow>
          eval_function_statement name parameters body env s
      | ClassStatement name methods \<Rightarrow> eval_class_statement name methods env s
      | IntegerLiteral v \<Rightarrow> ret (Integer v) s
      | StringLiteral v \<Rightarrow> ret (String v) s
      | BooleanLiteral v \<Rightarrow> ret (native_bool_to_boolean_object v) s
      | NilLiteral \<Rightarrow> ret NIL s
      | SelfExpression \<Rightarrow> eval_self_expression env s
      | Identifier name \<Rightarrow> eval_identifier name env s
      | PrefixExpression operator right \<Rightarrow> eval_prefix_expression ev operator right env s
      | InfixExpression left operator right \<Rightarrow> eval_infix_expression ev left operator right env s
      | CallExpression function arguments \<Rightarrow> eval_call_expression ev function arguments env s
      | MemberAccessExpression object member \<Rightarrow>
          eval_member_access_expression ev object member env s)"

primrec eval_node :: "nat \<Rightarrow> host \<Rightarrow> node \<Rightarrow> environment \<Rightarrow> state \<Rightarrow> result" where
  "eval_node 0 h node env s = None"
| "eval_node (Suc n) h node env s = eval_dispatch n h (eval_node n h) node env s"

text \<open>
  Running a source text as the test scripts and \<open>Evaluator._load_and_eval_file\<close> do:
  lex, parse, give up with an Error if the parser reported errors, else evaluate the
  program in a new environment that holds the builtins.
\<close>

definition initial_state :: state where
  "initial_state = \<lparr>heap = (\<lambda>_. []), next_id = 0, loaded_modules = [], loading_stack = [],
                     stdout = [], stdin = []\<rparr>"

definition eval_source :: "nat \<Rightarrow> host \<Rightarrow> string \<Rightarrow> state \<Rightarrow> result" where
  "eval_source n h source s =
     (case parse_source n source of
        Inl e \<Rightarrow> ret (Error (''Evaluation exception: '' @ lexer_error_str e)) s
      | Inr None \<Rightarrow> None
      | Inr (Some (program, errs)) \<Rightarrow>
          if errs \<noteq> [] then ret (Error (''Parser errors: '' @ join ''; '' errs)) s
          else
            (case new_environment None s of (env, s1) \<Rightarrow>
               eval_node n h program env
                 (fold (\<lambda>(name, builtin). env_set env name builtin) BUILTINS s1)))"

text \<open>A host with no files, for programs that load nothing.\<close>

definition no_files :: host where
  "no_files = \<lparr>getcwd = ''/'', isfile = (\<lambda>_. False), abspath = (\<lambda>p. p),
                read_file = (\<lambda>_. Inl FileNotFoundError)\<rparr>"

text \<open>Example values for the closed instances below.\<close>

definition env0 :: environment where
  "env0 = Environment 0 None"

definition state0 :: state where
  "state0 = initial_state\<lparr>next_id := 1\<rparr>"

definition counter_program :: node where
  "counter_program = Program
    [FunctionStatement ''makeCounter'' []
      (BlockStatement
        [AssignStatement (Identifier ''count'') (IntegerLiteral 0),
         FunctionStatement ''inc'' []
           (BlockStatement
              [AssignStatement (Identifier ''count'')
                 (InfixExpression (Identifier ''count'') ''+'' (IntegerLiteral 1)),
               ReturnStatement (Identifier ''count'')]),
         ReturnStatement (Identifier ''inc'')]),
     AssignStatement (Identifier ''counter'') (CallExpression (Identifier ''makeCounter'') []),
     ExpressionStatement (CallExpression (Identifier ''counter'') []),
     ExpressionStatement (CallExpression (Identifier ''counter'') [])]"

definition person_init :: obj where
  "person_init = Function [''self'', ''name'']
     (BlockStatement
        [AssignStatement (MemberAccessExpression SelfExpression ''name'') (Identifier ''name'')])
     env0 ''__init__'' 1"

definition person_class :: obj where
  "person_class = Class ''Person'' [(''__init__'', person_init)] 2"

text \<open>
  Every store is a dict: no key occurs twice. \<open>steps_ok s s'\<close> relates the state before
  a run to the state after it.
\<close>

definition stores_are_dicts :: "state \<Rightarrow> bool" where
  "stores_are_dicts s = (\<forall>a. distinct (map fst (heap s a)))"

definition steps_ok :: "state \<Rightarrow> state \<Rightarrow> bool" where
  "steps_ok s s' =
     (next_id s \<le> next_id s' \<and> loading_stack s' = loading_stack s
      \<and> (stores_are_dicts s \<longrightarrow> stores_are_dicts s'))"

definition sound_evaluator :: "evaluator \<Rightarrow> bool" where
  "sound_evaluator ev = (\<forall>node env s out s'. ev node env s = Some (out, s') \<longrightarrow> steps_ok s s')"

text \<open>
  Two hosts for the closed instances: one whose files \<open>module_a.zen\<close> and
  \<open>module_b.zen\<close> load each other, and one with a module \<open>m.zen\<close> that has a private
  binding, a public function that reads it, and a public constant.
\<close>

definition module_a_source :: string where
  "module_a_source = ''bag module_a load('' @ [DQUOTE] @ ''module_b'' @ [DQUOTE] @ '')''"

definition module_b_source :: string where
  "module_b_source = ''bag module_b load('' @ [DQUOTE] @ ''module_a'' @ [DQUOTE] @ '')''"

definition cyclic_host :: host where
  "cyclic_host =
     \<lparr>getcwd = ''/'',
      isfile = (\<lambda>p. p = ''/module_a.zen'' \<or> p = ''/module_b.zen''),
      abspath = (\<lambda>p. p),
      read_file = (\<lambda>p.
        if p = ''/module_a.zen'' then Inr module_a_source
        else if p = ''/module_b.zen'' then Inr module_b_source
        else Inl FileNotFoundError)\<rparr>"



text \<open>
  Frames that evaluation must not write. \<open>methods_ok\<close>: the method table of a class holds
  Function objects only. \<open>obj_ok F v\<close>: \<open>v\<close> gives no way to a field store in \<open>F\<close>.
  \<open>sealed F s\<close> adds to \<open>F\<close> the addresses not yet allocated in \<open>s\<close>, and
  \<open>state_ok F s\<close> says that \<open>F\<close> is allocated and that every object stored in an
  environment or in the module cache is fine for \<open>sealed F s\<close>. \<open>keeps F env s out s'\<close>
  relates a run in environment \<open>env\<close> from \<open>s\<close> to its outcome and final state.
\<close>

fun is_function :: "obj \<Rightarrow> bool" where
  "is_function (Function parameters body env name i) = True"
| "is_function _ = False"

fun methods_ok :: "obj \<Rightarrow> bool" where
  "methods_ok (Class name methods i) = (\<forall>m \<in> snd ` set methods. is_function m)"
| "methods_ok (Instance cls flds) = methods_ok cls"
| "methods_ok _ = True"

fun obj_ok :: "addr set \<Rightarrow> obj \<Rightarrow> bool" where
  "obj_ok F (Instance cls flds) = (frame flds \<notin> F \<and> methods_ok cls)"
| "obj_ok F (ReturnValue v i) = obj_ok F v"
| "obj_ok F (Class name methods i) = methods_ok (Class name methods i)"
| "obj_ok F _ = True"

definition sealed :: "addr set \<Rightarrow> state \<Rightarrow> addr set" where
  "sealed F s = F \<union> {b. next_id s \<le> b}"

definition state_ok :: "addr set \<Rightarrow> state \<Rightarrow> bool" where
  "state_ok F s =
     ((\<forall>a \<in> F. a < next_id s)
      \<and> (\<forall>a k v. (k, v) \<in> set (heap s a) \<longrightarrow> obj_ok (sealed F s) v)
      \<and> (\<forall>p m. (p, m) \<in> set (loaded_modules s) \<longrightarrow> obj_ok (sealed F s) m))"

definition keeps :: "addr set \<Rightarrow> environment \<Rightarrow> state \<Rightarrow> outcome \<Rightarrow> state \<Rightarrow> bool" where
  "keeps F env s out s' =
     (next_id s \<le> next_id s' \<and> state_ok F s'
      \<and> (case out of Value v \<Rightarrow> obj_ok (sealed F s') v | SystemExit code \<Rightarrow> True)
      \<and> (frame env \<notin> F \<longrightarrow> (\<forall>a \<in> F. heap s' a = heap s a)))"

definition good_evaluator :: "addr set \<Rightarrow> evaluator \<Rightarrow> bool" where
  "good_evaluator F ev =
     (\<forall>node env s out s'. state_ok F s \<and> ev node env s = Some (out, s') \<longrightarrow> keeps F env s out s')"

text \<open>
  The public view \<open>pub\<close> of a module is in step with its namespace \<open>priv\<close>: it holds
  exactly the bindings with a public name, with the same values.
\<close>

definition module_view_ok :: "state \<Rightarrow> environment \<Rightarrow> environment \<Rightarrow> bool" where
  "module_view_ok s pub priv =
     (outer pub = None \<and> outer priv = None
      \<and> (\<forall>x. map_of (heap s (frame pub)) x
                = (if is_public_name x then map_of (heap s (frame priv)) x else None)))"

text \<open>A class with a constructor, and a program that instantiates it and reads the field.\<close>

definition person_source :: string where
  "person_source = ''clx Person { fx __init__(me, name) { me.name = name } } p = Person(''
     @ [DQUOTE] @ ''Alice'' @ [DQUOTE] @ '') p.name''"

definition person_program :: node where
  "person_program = Program
     [ClassStatement ''Person''
        [FunctionStatement ''__init__'' [''me'', ''name'']
           (BlockStatement
              [AssignStatement (MemberAccessExpression (Identifier ''me'') ''name'')
                 (Identifier ''name'')])],
      AssignStatement (Identifier ''p'')
        (CallExpression (Identifier ''Person'') [StringLiteral ''Alice'']),
      ExpressionStatement (MemberAccessExpression (Identifier ''p'') ''name'')]"

section \<open>Verified properties\<close>

subsection \<open>Helper lemmas\<close>

lemma and_then_Value [simp]: "and_then (Some (Value v, s)) f = f v s"
  by (simp add: and_then_def)

lemma and_then_Exit [simp]: "and_then (Some (SystemExit c, s)) f = Some (SystemExit c, s)"
  by (simp add: and_then_def)

lemma and_then_None [simp]: "and_then None f = None"
  by (simp add: and_then_def)

lemma and_then_SomeE:
  assumes "and_then r f = Some (out, s')"
  obtains (exit) c where "r = Some (SystemExit c, s')" "out = SystemExit c"
        | (val) v s1 where "r = Some (Value v, s1)" "f v s1 = Some (out, s')"
  using assms by (auto simp: and_then_def split: option.splits outcome.splits prod.splits)

lemma env_get_env_set_same: "env_get (env_set e name v s) e name = Some v"
  by (cases e) (simp add: env_set_def update_conv')

lemma env_get_env_set_other:
  "name \<noteq> q \<Longrightarrow> env_get (env_set e q v s) e' name = env_get s e' name"
  by (induction s e' name rule: env_get.induct)
     (auto simp: env_set_def update_conv' split: option.splits)

lemma env_get_bind_parameters_other:
  "name \<notin> set params \<Longrightarrow> env_get (bind_parameters e params args s) e' name = env_get s e' name"
  by (induction e params args s rule: bind_parameters.induct)
     (simp_all add: env_get_env_set_other)

lemma process_escapes_plain:
  "c \<noteq> BACKSLASH \<Longrightarrow> process_escapes (c # cs) = c # process_escapes cs"
  by (cases cs) simp_all

text \<open>What the state updates leave alone, for evaluating runs without unfolding states.\<close>

lemma env_set_fields [simp]:
  "next_id (env_set e k v s) = next_id s"
  "loaded_modules (env_set e k v s) = loaded_modules s"
  "loading_stack (env_set e k v s) = loading_stack s"
  by (simp_all add: env_set_def)

lemma fold_env_set_fields [simp]:
  "next_id (fold (\<lambda>(name, ob). env_set e name ob) xs s) = next_id s"
  "loaded_modules (fold (\<lambda>(name, ob). env_set e name ob) xs s) = loaded_modules s"
  "loading_stack (fold (\<lambda>(name, ob). env_set e name ob) xs s) = loading_stack s"
  by (induction xs arbitrary: s) (auto simp: split_def)

lemma start_loading_fields [simp]:
  "next_id (start_loading p s) = next_id s"
  "loaded_modules (start_loading p s) = loaded_modules s"
  "loading_stack (start_loading p s) = loading_stack s @ [p]"
  "heap (start_loading p s) = heap s"
  by (simp_all add: start_loading_def)

lemma finish_loading_fields [simp]:
  "next_id (finish_loading p s) = next_id s"
  "loaded_modules (finish_loading p s) = loaded_modules s"
  "heap (finish_loading p s) = heap s"
  "loading_stack (finish_loading p s) = remove1 p (loading_stack s)"
  by (simp_all add: finish_loading_def remove1_idem)

lemma eval_node_numeral:
  "eval_node (numeral k) h node env s
     = eval_dispatch (pred_numeral k) h (eval_node (pred_numeral k) h) node env s"
  by (simp add: numeral_eq_Suc)

subsection \<open>Closures\<close>

text \<open>
  C1. The counter program of the closure test: as written, with the anonymous
  \<open>fx() { ... }\<close> after \<open>return\<close>, the parser reports errors (no prefix parse function
  is registered for \<open>fx\<close>) and the run ends with the Error that lists them. With the inner
  function given a name the program parses, and its value is Integer 1, not 2: the
  assignment \<open>count = count + 1\<close> writes \<open>count\<close> into the frame of the running call, so
  the second call reads the \<open>count\<close> of \<open>makeCounter\<close>'s frame, still 0.
\<close>

theorem counter_program_does_not_yield_two:
  "eval_source 60 no_files
     ''fx makeCounter() { count = 0 return fx() { count = count + 1 return count } } counter = makeCounter() counter() counter()''
     initial_state
   = Some (Value (Error ''Parser errors: No prefix parse function for FX; No prefix parse function for RPAREN; Expected next token to be RPAREN, got LBRACE instead''),
           initial_state)
   \<and> parse_source 60
     ''fx makeCounter() { count = 0 fx inc() { count = count + 1 return count } return inc } counter = makeCounter() counter() counter()''
   = Inr (Some (counter_program, []))
   \<and> map_option fst (eval_node 12 no_files counter_program env0 state0) = Some (Value (Integer 1))"
proof -
  have P: "parse_source 60
     ''fx makeCounter() { count = 0 return fx() { count = count + 1 return count } } counter = makeCounter() counter() counter()''
    = Inr (Some (Program
        [FunctionStatement ''makeCounter'' []
          (BlockStatement
            [AssignStatement (Identifier ''count'') (IntegerLiteral 0),
             ReturnStatement NoneNode,
             BlockStatement
               [AssignStatement (Identifier ''count'')
                  (InfixExpression (Identifier ''count'') ''+'' (IntegerLiteral 1)),
                ReturnStatement (Identifier ''count'')]]),
         AssignStatement (Identifier ''counter'') (CallExpression (Identifier ''makeCounter'') []),
         ExpressionStatement (CallExpression (Identifier ''counter'') []),
         ExpressionStatement (CallExpression (Identifier ''counter'') [])],
        [''No prefix parse function for FX'', ''No prefix parse function for RPAREN'',
         ''Expected next token to be RPAREN, got LBRACE instead'']))"
    by code_simp
  have A: "eval_source 60 no_files
     ''fx makeCounter() { count = 0 return fx() { count = count + 1 return count } } counter = makeCounter() counter() counter()''
     initial_state
   = Some (Value (Error ''Parser errors: No prefix parse function for FX; No prefix parse function for RPAREN; Expected next token to be RPAREN, got LBRACE instead''),
           initial_state)"
    unfolding eval_source_def P by (simp add: ret_def)
  have B: "parse_source 60
     ''fx makeCounter() { count = 0 fx inc() { count = count + 1 return count } return inc } counter = makeCounter() counter() counter()''
   = Inr (Some (counter_program, []))"
    unfolding counter_program_def by code_simp
  have C: "map_option fst (eval_node 12 no_files counter_program env0 state0)
             = Some (Value (Integer 1))"
    unfolding counter_program_def by code_simp
  show ?thesis using A B C by blast
qed

subsection \<open>Logical operators\<close>

text \<open>
  C2 as stated fails: \<open>nil && (1 / 0)\<close> has a non-truthy left operand and still evaluates
  the right one, whose Error is the result; likewise \<open>true || (1 / 0)\<close>.
\<close>

theorem logical_operators_not_short_circuit:
  "eval_node 3 no_files NilLiteral env0 state0 = Some (Value NIL, state0)
   \<and> \<not> is_truthy NIL
   \<and> eval_node 3 no_files
        (InfixExpression NilLiteral ''&&''
           (InfixExpression (IntegerLiteral 1) ''/'' (IntegerLiteral 0))) env0 state0
      = Some (Value (Error ''Division by zero''), state0)
   \<and> eval_node 3 no_files (BooleanLiteral True) env0 state0 = Some (Value TRUE, state0)
   \<and> is_truthy TRUE
   \<and> eval_node 3 no_files
        (InfixExpression (BooleanLiteral True) ''||''
           (InfixExpression (IntegerLiteral 1) ''/'' (IntegerLiteral 0))) env0 state0
      = Some (Value (Error ''Division by zero''), state0)"
  by (simp add: eval_nat_numeral eval_dispatch_def eval_infix_expression_def ret_def
        is_error_def apply_infix_operator_def apply_integer_infix_operator_def
        native_bool_to_boolean_object_def)

text \<open>
  C2, amended. In \<open>l && r\<close> and \<open>l || r\<close> the left operand is evaluated first. If it
  yields an Error, that Error is the result and \<open>r\<close> is not evaluated. Otherwise \<open>r\<close>
  is always evaluated, whether or not the value of \<open>l\<close> is truthy: a run of \<open>r\<close> that
  does not return or that exits is the run of the whole expression, and an Error from
  \<open>r\<close> is the result. When neither value is an Error and the two are not both Integers
  and not both Strings, \<open>l && r\<close> is the value of \<open>l\<close> if that is not truthy and the
  value of \<open>r\<close> otherwise, and \<open>l || r\<close> is the value of \<open>l\<close> if that is truthy and
  the value of \<open>r\<close> otherwise; the state is the one after both evaluations.
\<close>

theorem logical_operators_evaluate_both_operands:
  assumes l: "eval_node n h l env s = Some (Value lv, s1)"
  shows "(is_error lv \<longrightarrow>
            eval_node (Suc n) h (InfixExpression l ''&&'' r) env s = Some (Value lv, s1)
          \<and> eval_node (Suc n) h (InfixExpression l ''||'' r) env s = Some (Value lv, s1))
       \<and> (\<not> is_error lv \<and> eval_node n h r env s1 = None \<longrightarrow>
            eval_node (Suc n) h (InfixExpression l ''&&'' r) env s = None
          \<and> eval_node (Suc n) h (InfixExpression l ''||'' r) env s = None)
       \<and> (\<not> is_error lv \<and> eval_node n h r env s1 = Some (SystemExit c, s2) \<longrightarrow>
            eval_node (Suc n) h (InfixExpression l ''&&'' r) env s = Some (SystemExit c, s2)
          \<and> eval_node (Suc n) h (InfixExpression l ''||'' r) env s = Some (SystemExit c, s2))
       \<and> (\<not> is_error lv \<and> eval_node n h r env s1 = Some (Value rv, s2) \<and> is_error rv \<longrightarrow>
            eval_node (Suc n) h (InfixExpression l ''&&'' r) env s = Some (Value rv, s2)
          \<and> eval_node (Suc n) h (InfixExpression l ''||'' r) env s = Some (Value rv, s2))
       \<and> (\<not> is_error lv \<and> eval_node n h r env s1 = Some (Value rv, s2) \<and> \<not> is_error rv
          \<and> \<not> (\<exists>a b. lv = Integer a \<and> rv = Integer b)
          \<and> \<not> (\<exists>a b. lv = String a \<and> rv = String b) \<longrightarrow>
            eval_node (Suc n) h (InfixExpression l ''&&'' r) env s =
              Some (Value (if is_truthy lv then rv else lv), s2)
          \<and> eval_node (Suc n) h (InfixExpression l ''||'' r) env s =
              Some (Value (if is_truthy lv then lv else rv), s2))"
proof (intro conjI impI)
  assume a: "\<not> is_error lv \<and> eval_node n h r env s1 = Some (Value rv, s2) \<and> \<not> is_error rv
          \<and> \<not> (\<exists>a b. lv = Integer a \<and> rv = Integer b)
          \<and> \<not> (\<exists>a b. lv = String a \<and> rv = String b)"
  have op_and: "apply_infix_operator ''&&'' lv rv = (if is_truthy lv then rv else lv)"
    using a
    by (cases lv; cases rv) (simp_all add: apply_infix_operator_def apply_logical_operator_def)
  have op_or: "apply_infix_operator ''||'' lv rv = (if is_truthy lv then lv else rv)"
    using a
    by (cases lv; cases rv) (simp_all add: apply_infix_operator_def apply_logical_operator_def)
  show "eval_node (Suc n) h (InfixExpression l ''&&'' r) env s =
              Some (Value (if is_truthy lv then rv else lv), s2)"
    using l a op_and by (simp add: eval_dispatch_def eval_infix_expression_def ret_def)
  show "eval_node (Suc n) h (InfixExpression l ''||'' r) env s =
              Some (Value (if is_truthy lv then lv else rv), s2)"
    using l a op_or by (simp add: eval_dispatch_def eval_infix_expression_def ret_def)
qed (use l in \<open>simp_all add: eval_dispatch_def eval_infix_expression_def ret_def\<close>)

theorem logical_operators_evaluate_both_operands_witness:
  "eval_node (Suc (Suc 0)) no_files NilLiteral env0 state0 = Some (Value NIL, state0)
   \<and> eval_node (Suc (Suc 0)) no_files (StringLiteral ''x'') env0 state0
       = Some (Value (String ''x''), state0)
   \<and> \<not> is_error NIL \<and> \<not> is_error (String ''x'')
   \<and> eval_node (Suc (Suc (Suc 0))) no_files
         (InfixExpression NilLiteral ''&&'' (StringLiteral ''x'')) env0 state0
       = Some (Value NIL, state0)
   \<and> eval_node (Suc (Suc (Suc 0))) no_files
         (InfixExpression NilLiteral ''||'' (StringLiteral ''x'')) env0 state0
       = Some (Value (String ''x''), state0)
   \<and> eval_node (Suc (Suc 0)) no_files
         (InfixExpression (IntegerLiteral 1) ''/'' (IntegerLiteral 0)) env0 state0
       = Some (Value (Error ''Division by zero''), state0)
   \<and> is_error (Error ''Division by zero'')
   \<and> eval_node (Suc (Suc (Suc 0))) no_files
         (InfixExpression (InfixExpression (IntegerLiteral 1) ''/'' (IntegerLiteral 0)) ''&&''
            (StringLiteral ''x'')) env0 state0
       = Some (Value (Error ''Division by zero''), state0)
   \<and> eval_node (Suc (Suc (Suc 0))) no_files
         (InfixExpression NilLiteral ''&&''
            (InfixExpression (IntegerLiteral 1) ''/'' (IntegerLiteral 0))) env0 state0
       = Some (Value (Error ''Division by zero''), state0)"
proof -
  let ?div = "InfixExpression (IntegerLiteral 1) ''/'' (IntegerLiteral 0)"
  have l: "eval_node (Suc (Suc 0)) no_files NilLiteral env0 state0 = Some (Value NIL, state0)"
    by (simp add: eval_dispatch_def ret_def)
  have r: "eval_node (Suc (Suc 0)) no_files (StringLiteral ''x'') env0 state0
             = Some (Value (String ''x''), state0)"
    by (simp add: eval_dispatch_def ret_def)
  have d: "eval_node (Suc (Suc 0)) no_files ?div env0 state0
             = Some (Value (Error ''Division by zero''), state0)"
    by (simp add: eval_dispatch_def eval_infix_expression_def ret_def is_error_def
          apply_infix_operator_def apply_integer_infix_operator_def)
  have e: "\<not> is_error NIL" "\<not> is_error (String ''x'')" "is_error (Error ''Division by zero'')"
    by (simp_all add: is_error_def)
  have A: "eval_node (Suc (Suc (Suc 0))) no_files
             (InfixExpression NilLiteral ''&&'' (StringLiteral ''x'')) env0 state0
           = Some (Value (if is_truthy NIL then String ''x'' else NIL), state0)
         \<and> eval_node (Suc (Suc (Suc 0))) no_files
             (InfixExpression NilLiteral ''||'' (StringLiteral ''x'')) env0 state0
           = Some (Value (if is_truthy NIL then NIL else String ''x''), state0)"
    using logical_operators_evaluate_both_operands
            [OF l, where r = "StringLiteral ''x''" and rv = "String ''x''" and ?s2.0 = state0]
          r e
    by blast
  have B: "eval_node (Suc (Suc (Suc 0))) no_files
             (InfixExpression ?div ''&&'' (StringLiteral ''x'')) env0 state0
           = Some (Value (Error ''Division by zero''), state0)"
    using logical_operators_evaluate_both_operands
            [OF d, where r = "StringLiteral ''x''"]
          e
    by blast
  have C: "eval_node (Suc (Suc (Suc 0))) no_files
             (InfixExpression NilLiteral ''&&'' ?div) env0 state0
           = Some (Value (Error ''Division by zero''), state0)"
    using logical_operators_evaluate_both_operands
            [OF l, where r = ?div and rv = "Error ''Division by zero''" and ?s2.0 = state0]
          d e
    by blast
  show ?thesis using A B C l r d e by simp
qed

subsection \<open>Parser\<close>

text \<open>
  C3. Printed forms of parsed expressions. \<open>a + b * c\<close>, \<open>a * b + c\<close> and \<open>!-a\<close> print
  as \<open>(a + (b * c))\<close>, \<open>((a * b) + c)\<close> and \<open>(!(-a))\<close>, and \<open>a - b - c\<close> parses as
  \<open>(a - b) - c\<close>. \<open>a.b.c\<close> parses left-associatively too, but
  \<open>MemberAccessExpression.string\<close> writes no parentheses: the printed form is \<open>a.b.c\<close>,
  not \<open>((a.b).c)\<close>.
\<close>

theorem member_access_chain_printed_without_parentheses:
  "parse_source 20 ''a.b.c'' =
     Inr (Some (Program [ExpressionStatement
            (MemberAccessExpression (MemberAccessExpression (Identifier ''a'') ''b'') ''c'')], []))
   \<and> node_string (MemberAccessExpression (MemberAccessExpression (Identifier ''a'') ''b'') ''c'')
       = Some ''a.b.c''
   \<and> parse_source 20 ''a + b * c'' =
     Inr (Some (Program [ExpressionStatement
            (InfixExpression (Identifier ''a'') ''+''
               (InfixExpression (Identifier ''b'') ''*'' (Identifier ''c'')))], []))
   \<and> node_string (InfixExpression (Identifier ''a'') ''+''
               (InfixExpression (Identifier ''b'') ''*'' (Identifier ''c''))) = Some ''(a + (b * c))''
   \<and> parse_source 20 ''a * b + c'' =
     Inr (Some (Program [ExpressionStatement
            (InfixExpression (InfixExpression (Identifier ''a'') ''*'' (Identifier ''b''))
               ''+'' (Identifier ''c''))], []))
   \<and> node_string (InfixExpression (InfixExpression (Identifier ''a'') ''*'' (Identifier ''b''))
               ''+'' (Identifier ''c'')) = Some ''((a * b) + c)''
   \<and> parse_source 20 ''!-a'' =
     Inr (Some (Program [ExpressionStatement
            (PrefixExpression ''!'' (PrefixExpression ''-'' (Identifier ''a'')))], []))
   \<and> node_string (PrefixExpression ''!'' (PrefixExpression ''-'' (Identifier ''a''))) = Some ''(!(-a))''
   \<and> parse_source 20 ''a - b - c'' =
     Inr (Some (Program [ExpressionStatement
            (InfixExpression (InfixExpression (Identifier ''a'') ''-'' (Identifier ''b''))
               ''-'' (Identifier ''c''))], []))"
  by code_simp

subsection \<open>Lexer\<close>

text \<open>
  C4. Escape decoding in \<open>_process_string\<close>. A backslash followed by one of
  \<open>n t r \ "\<close> is replaced by the escaped character. A backslash followed by any other
  character stays in the literal together with that character: the string literal
  \<open>"a\qb"\<close> has the four-character literal \<open>a\qb\<close>, while \<open>"a\nb"\<close> has the three
  characters a, LF, b.
\<close>

theorem unknown_escape_keeps_backslash:
  "process_escapes (BACKSLASH # d # cs) =
     (case map_of escapes d of
        Some e \<Rightarrow> e # process_escapes cs
      | None \<Rightarrow> BACKSLASH # d # process_escapes cs)
   \<and> tokenize [DQUOTE, CHR ''a'', BACKSLASH, CHR ''q'', CHR ''b'', DQUOTE] =
       Inr [Token T_STRING (LitStr [CHR ''a'', BACKSLASH, CHR ''q'', CHR ''b'']) 1 1,
            Token T_EOF LitNone 1 7]
   \<and> tokenize [DQUOTE, CHR ''a'', BACKSLASH, CHR ''n'', CHR ''b'', DQUOTE] =
       Inr [Token T_STRING (LitStr [CHR ''a'', LF, CHR ''b'']) 1 1, Token T_EOF LitNone 1 7]"
proof -
  have general: "process_escapes (BACKSLASH # d # cs) =
     (case map_of escapes d of
        Some e \<Rightarrow> e # process_escapes cs
      | None \<Rightarrow> BACKSLASH # d # process_escapes cs)"
  proof (cases "map_of escapes d")
    case None
    then have "d \<noteq> BACKSLASH" by (auto simp: escapes_def split: if_splits)
    then show ?thesis using None by (simp add: process_escapes_plain)
  next
    case (Some e)
    then show ?thesis by simp
  qed
  have unknown: "tokenize [DQUOTE, CHR ''a'', BACKSLASH, CHR ''q'', CHR ''b'', DQUOTE] =
       Inr [Token T_STRING (LitStr [CHR ''a'', BACKSLASH, CHR ''q'', CHR ''b'']) 1 1,
            Token T_EOF LitNone 1 7]"
    by code_simp
  have known: "tokenize [DQUOTE, CHR ''a'', BACKSLASH, CHR ''n'', CHR ''b'', DQUOTE] =
       Inr [Token T_STRING (LitStr [CHR ''a'', LF, CHR ''b'']) 1 1, Token T_EOF LitNone 1 7]"
    by code_simp
  show ?thesis using general unknown known by blast
qed

subsection \<open>Integer division\<close>

text \<open>
  C5. For Integer operands, \<open>a / b\<close> is the Error "Division by zero" when \<open>b\<close> is 0 and
  otherwise the Integer floor of the exact quotient; \<open>-7 / 2\<close> evaluates to Integer -4 and
  \<open>10 / 0\<close> to an Error.
\<close>

theorem integer_division_floor_or_error:
  "apply_infix_operator ''/'' (Integer a) (Integer b) =
     (if b = 0 then Error ''Division by zero''
      else Integer \<lfloor>real_of_int a / real_of_int b\<rfloor>)
   \<and> eval_node (Suc (Suc n)) h (InfixExpression (IntegerLiteral a) ''/'' (IntegerLiteral b)) env s =
     Some (Value (if b = 0 then Error ''Division by zero''
                  else Integer \<lfloor>real_of_int a / real_of_int b\<rfloor>), s)
   \<and> map_option fst (eval_source 10 no_files ''-7 / 2'' initial_state) = Some (Value (Integer (- 4)))
   \<and> map_option fst (eval_source 10 no_files ''10 / 0'' initial_state)
       = Some (Value (Error ''Division by zero''))"
proof -
  have A: "apply_infix_operator ''/'' (Integer a) (Integer b) =
     (if b = 0 then Error ''Division by zero''
      else Integer \<lfloor>real_of_int a / real_of_int b\<rfloor>)"
    by (simp add: apply_infix_operator_def apply_integer_infix_operator_def floor_divide_of_int_eq)
  have B: "eval_node (Suc (Suc n)) h (InfixExpression (IntegerLiteral a) ''/'' (IntegerLiteral b)) env s =
     Some (Value (apply_infix_operator ''/'' (Integer a) (Integer b)), s)"
    by (simp add: eval_dispatch_def eval_infix_expression_def ret_def is_error_def)
  have C: "map_option fst (eval_source 10 no_files ''-7 / 2'' initial_state)
             = Some (Value (Integer (- 4)))"
    by code_simp
  have D: "map_option fst (eval_source 10 no_files ''10 / 0'' initial_state)
       = Some (Value (Error ''Division by zero''))"
    by code_simp
  show ?thesis using A B C D by simp
qed

subsection \<open>Dispatch on an absent node\<close>

text \<open>
  C10. \<open>eval_node\<close> on \<open>None\<close> returns \<open>NIL\<close> and leaves the state as it is, in every
  environment and state.
\<close>

theorem absent_node_evaluates_to_nil:
  "eval_node (Suc n) h NoneNode env s = Some (Value NIL, s)"
  by (simp add: eval_dispatch_def ret_def)

subsection \<open>Assignment\<close>

text \<open>
  C9. An assignment whose value evaluates to an object that is not an Error: with an
  Identifier target it binds the name in the store of the current environment's own
  frame (no other frame changes) and its result is the value; with a member target whose
  object evaluates to an Instance it writes the field in the instance's field store and
  its result is the value; with a member target whose object evaluates to any other
  object that is not an Error its result is an Error and the state is the one left by
  evaluating the value and the object.
\<close>

theorem assignment_result_and_effect:
  "(eval_node n h v env s = Some (Value val, sa) \<and> \<not> is_error val \<longrightarrow>
      eval_node (Suc n) h (AssignStatement (Identifier name) v) env s
        = Some (Value val, env_set env name val sa)
      \<and> map_of (heap (env_set env name val sa) (frame env)) name = Some val
      \<and> env_get (env_set env name val sa) env name = Some val
      \<and> (\<forall>a. a \<noteq> frame env \<longrightarrow> heap (env_set env name val sa) a = heap sa a))
 \<and> (eval_node n h v env s = Some (Value val, sa) \<and> \<not> is_error val
      \<and> eval_node n h ob env sa = Some (Value (Instance cls flds), sb) \<longrightarrow>
      eval_node (Suc n) h (AssignStatement (MemberAccessExpression ob member) v) env s
        = Some (Value val, set_field flds member val sb)
      \<and> get_field (set_field flds member val sb) flds member = Some val)
 \<and> (eval_node n h v env s = Some (Value val, sa) \<and> \<not> is_error val
      \<and> eval_node n h ob env sa = Some (Value target, sb) \<and> \<not> is_error target
      \<and> type_of target \<noteq> ''INSTANCE'' \<longrightarrow>
      eval_node (Suc n) h (AssignStatement (MemberAccessExpression ob member) v) env s
        = Some (Value (Error (''Cannot assign to member of '' @ type_of target)), sb))"
  apply (intro conjI impI)
  subgoal by (simp add: eval_dispatch_def eval_assign_statement_def ret_def)
  subgoal by (simp add: env_set_def update_conv')
  subgoal by (rule env_get_env_set_same)
  subgoal by (simp add: env_set_def)
  subgoal by (simp add: eval_dispatch_def eval_assign_statement_def eval_member_assignment_def
                ret_def is_error_def)
  subgoal by (simp add: get_field_def set_field_def env_get_env_set_same)
  subgoal by (cases target)
     (simp_all add: eval_dispatch_def eval_assign_statement_def eval_member_assignment_def
                ret_def)
  done

theorem assignment_result_and_effect_witness:
  "eval_node (Suc 0) no_files (IntegerLiteral 5) env0 state0 = Some (Value (Integer 5), state0)
   \<and> \<not> is_error (Integer 5)
   \<and> eval_node (Suc (Suc 0)) no_files (AssignStatement (Identifier ''x'') (IntegerLiteral 5)) env0 state0
       = Some (Value (Integer 5), env_set env0 ''x'' (Integer 5) state0)
   \<and> env_get (env_set env0 ''x'' (Integer 5) state0) env0 ''x'' = Some (Integer 5)
   \<and> eval_node (Suc 0) no_files (Identifier ''p'') env0
        (env_set env0 ''p'' (Instance person_class (Environment 1 None)) state0)
       = Some (Value (Instance person_class (Environment 1 None)),
               env_set env0 ''p'' (Instance person_class (Environment 1 None)) state0)
   \<and> eval_node (Suc (Suc 0)) no_files
        (AssignStatement (MemberAccessExpression (Identifier ''p'') ''age'') (IntegerLiteral 5)) env0
        (env_set env0 ''p'' (Instance person_class (Environment 1 None)) state0)
       = Some (Value (Integer 5),
               set_field (Environment 1 None) ''age'' (Integer 5)
                 (env_set env0 ''p'' (Instance person_class (Environment 1 None)) state0))
   \<and> eval_node (Suc 0) no_files (StringLiteral ''s'') env0 state0 = Some (Value (String ''s''), state0)
   \<and> \<not> is_error (String ''s'') \<and> type_of (String ''s'') \<noteq> ''INSTANCE''
   \<and> eval_node (Suc (Suc 0)) no_files
        (AssignStatement (MemberAccessExpression (StringLiteral ''s'') ''age'') (IntegerLiteral 5))
        env0 state0
       = Some (Value (Error ''Cannot assign to member of STRING''), state0)"
proof -
  let ?inst = "Instance person_class (Environment 1 None)"
  let ?sp = "env_set env0 ''p'' ?inst state0"
  have v: "\<And>s. eval_node (Suc 0) no_files (IntegerLiteral 5) env0 s = Some (Value (Integer 5), s)"
    by (simp add: eval_dispatch_def ret_def)
  have ne: "\<not> is_error (Integer 5)" by (simp add: is_error_def)
  have p: "eval_node (Suc 0) no_files (Identifier ''p'') env0 ?sp = Some (Value ?inst, ?sp)"
    by (simp add: eval_dispatch_def eval_identifier_def ret_def env_get_env_set_same)
  have str: "eval_node (Suc 0) no_files (StringLiteral ''s'') env0 state0
               = Some (Value (String ''s''), state0)"
    by (simp add: eval_dispatch_def ret_def)
  have ns: "\<not> is_error (String ''s'')" "type_of (String ''s'') \<noteq> ''INSTANCE''"
    by (simp_all add: is_error_def)
  have A: "eval_node (Suc (Suc 0)) no_files (AssignStatement (Identifier ''x'') (IntegerLiteral 5))
             env0 state0 = Some (Value (Integer 5), env_set env0 ''x'' (Integer 5) state0)
           \<and> env_get (env_set env0 ''x'' (Integer 5) state0) env0 ''x'' = Some (Integer 5)"
    using assignment_result_and_effect
            [where n = "Suc 0" and h = no_files and v = "IntegerLiteral 5" and env = env0
               and s = state0 and val = "Integer 5" and sa = state0 and name = "''x''"]
          v ne
    by blast
  have B: "eval_node (Suc (Suc 0)) no_files
             (AssignStatement (MemberAccessExpression (Identifier ''p'') ''age'') (IntegerLiteral 5))
             env0 ?sp
           = Some (Value (Integer 5), set_field (Environment 1 None) ''age'' (Integer 5) ?sp)"
    using assignment_result_and_effect
            [where n = "Suc 0" and h = no_files and v = "IntegerLiteral 5" and env = env0
               and s = ?sp and val = "Integer 5" and sa = ?sp and ob = "Identifier ''p''"
               and cls = person_class and flds = "Environment 1 None" and sb = ?sp
               and member = "''age''"]
          v ne p
    by blast
  have C: "eval_node (Suc (Suc 0)) no_files
             (AssignStatement (MemberAccessExpression (StringLiteral ''s'') ''age'') (IntegerLiteral 5))
             env0 state0
           = Some (Value (Error (''Cannot assign to member of '' @ type_of (String ''s''))), state0)"
    using assignment_result_and_effect
            [where n = "Suc 0" and h = no_files and v = "IntegerLiteral 5" and env = env0
               and s = state0 and val = "Integer 5" and sa = state0 and ob = "StringLiteral ''s''"
               and target = "String ''s''" and sb = state0 and member = "''age''"]
          v ne str ns
    by blast
  show ?thesis
    using A B C v ne p str ns by simp
qed

subsection \<open>Class constructor\<close>

text \<open>
  C6. Calling a Class value, by \<open>apply_function\<close> or by a call expression whose callee
  evaluates to the Class, runs \<open>apply_class_constructor\<close> on the evaluated arguments.
  That creates an Instance whose field environment is new and empty. With no method named
  \<open>__init__\<close> the call returns that Instance. With one, \<open>__init__\<close> is applied to the
  Instance followed by the call's arguments, so its first parameter (\<open>self\<close>) is bound
  to the Instance in the environment the body runs in; an Error result of \<open>__init__\<close>
  is the result of the call, and any other result is dropped in favour of the Instance.
\<close>

theorem class_constructor_contract:
  fixes ev :: evaluator
  shows
  "(let flds = Environment (next_id s) None;
        sa = s\<lparr>heap := (heap s)(next_id s := []), next_id := Suc (next_id s)\<rparr>;
        inst = Instance cls flds
    in new_environment None s = (flds, sa)
     \<and> env_items sa flds = []
     \<and> (get_method cls ''__init__'' = None \<longrightarrow>
          apply_class_constructor ev cls args s = Some (Value inst, sa))
     \<and> (\<forall>init res sb. get_method cls ''__init__'' = Some init
           \<and> apply_user_function ev init (inst # args) sa = Some (Value res, sb) \<longrightarrow>
          apply_class_constructor ev cls args s
            = Some (Value (if is_error res then res else inst), sb))
     \<and> (\<forall>p ps body fenv name i. p \<notin> set ps \<and> length ps = length args \<longrightarrow>
          (\<exists>ext sb. apply_user_function ev (Function (p # ps) body fenv name i) (inst # args) sa
                      = and_then (ev body ext sb)
                          (\<lambda>evaluated sc. case evaluated of ReturnValue v j \<Rightarrow> ret v sc
                                                      | _ \<Rightarrow> ret evaluated sc)
                   \<and> outer ext = Some fenv
                   \<and> env_get sb ext p = Some inst))
     \<and> (\<forall>v s'. apply_class_constructor ev cls args s = Some (Value v, s') \<longrightarrow>
          is_error v \<or> v = inst)
     \<and> (\<forall>name methods i. cls = Class name methods i \<longrightarrow>
          apply_function ev cls args s = apply_class_constructor ev cls args s)
     \<and> (\<forall>name methods i n h fnode arg_nodes env sz.
          cls = Class name methods i \<and> eval_node n h fnode env sz = Some (Value cls, s) \<longrightarrow>
          eval_node (Suc n) h (CallExpression fnode arg_nodes) env sz
            = eval_arguments (eval_node n h) arg_nodes env [] s
                (apply_class_constructor (eval_node n h) cls)
          \<and> eval_node (Suc n) h (CallExpression fnode []) env sz
            = apply_class_constructor (eval_node n h) cls [] s))"
proof -
  define flds where "flds = Environment (next_id s) None"
  define sa where "sa = s\<lparr>heap := (heap s)(next_id s := []), next_id := Suc (next_id s)\<rparr>"
  define inst where "inst = Instance cls flds"
  have new: "new_environment None s = (flds, sa)"
    by (simp add: new_environment_def flds_def sa_def)
  have empty: "env_items sa flds = []"
    by (simp add: env_items_def flds_def sa_def)
  have no_init: "get_method cls ''__init__'' = None \<longrightarrow>
          apply_class_constructor ev cls args s = Some (Value inst, sa)"
    by (simp add: apply_class_constructor_def new inst_def ret_def)
  have with_init: "\<forall>init res sb. get_method cls ''__init__'' = Some init
           \<and> apply_user_function ev init (inst # args) sa = Some (Value res, sb) \<longrightarrow>
          apply_class_constructor ev cls args s
            = Some (Value (if is_error res then res else inst), sb)"
    by (simp add: apply_class_constructor_def new inst_def ret_def)
  have bound: "\<forall>p ps body fenv name i. p \<notin> set ps \<and> length ps = length args \<longrightarrow>
          (\<exists>ext sb. apply_user_function ev (Function (p # ps) body fenv name i) (inst # args) sa
                      = and_then (ev body ext sb)
                          (\<lambda>evaluated sc. case evaluated of ReturnValue v j \<Rightarrow> ret v sc
                                                      | _ \<Rightarrow> ret evaluated sc)
                   \<and> outer ext = Some fenv
                   \<and> env_get sb ext p = Some inst)"
  proof (intro allI impI)
    fix p :: string and ps :: "string list" and body :: node and fenv :: environment
      and name :: string and i :: nat
    assume a: "p \<notin> set ps \<and> length ps = length args"
    obtain ext sa' where ne: "new_enclosed_environment fenv sa = (ext, sa')"
      by (cases "new_enclosed_environment fenv sa")
    let ?sb = "bind_parameters ext (p # ps) (inst # args) sa'"
    have "apply_user_function ev (Function (p # ps) body fenv name i) (inst # args) sa
            = and_then (ev body ext ?sb)
                (\<lambda>evaluated sc. case evaluated of ReturnValue v j \<Rightarrow> ret v sc
                                            | _ \<Rightarrow> ret evaluated sc)"
      using a ne by (simp add: apply_user_function_def)
    moreover have "outer ext = Some fenv"
      using ne by (auto simp: new_enclosed_environment_def new_environment_def)
    moreover have "env_get ?sb ext p = Some inst"
      using a by (simp add: env_get_bind_parameters_other env_get_env_set_same)
    ultimately show "\<exists>ext sb. apply_user_function ev (Function (p # ps) body fenv name i) (inst # args) sa
                      = and_then (ev body ext sb)
                          (\<lambda>evaluated sc. case evaluated of ReturnValue v j \<Rightarrow> ret v sc
                                                      | _ \<Rightarrow> ret evaluated sc)
                   \<and> outer ext = Some fenv
                   \<and> env_get sb ext p = Some inst"
      by blast
  qed
  have only: "\<forall>v s'. apply_class_constructor ev cls args s = Some (Value v, s') \<longrightarrow>
          is_error v \<or> v = inst"
    by (auto simp: apply_class_constructor_def new inst_def ret_def Let_def
             split: option.splits if_splits elim!: and_then_SomeE)
  have disp: "\<forall>name methods i. cls = Class name methods i \<longrightarrow>
          apply_function ev cls args s = apply_class_constructor ev cls args s"
    by (simp add: apply_function_def)
  have call: "\<forall>name methods i n h fnode arg_nodes env sz.
          cls = Class name methods i \<and> eval_node n h fnode env sz = Some (Value cls, s) \<longrightarrow>
          eval_node (Suc n) h (CallExpression fnode arg_nodes) env sz
            = eval_arguments (eval_node n h) arg_nodes env [] s
                (apply_class_constructor (eval_node n h) cls)
          \<and> eval_node (Suc n) h (CallExpression fnode []) env sz
            = apply_class_constructor (eval_node n h) cls [] s"
  proof (intro allI impI)
    fix name methods i n h fnode arg_nodes env sz
    assume a: "cls = Class name methods i \<and> eval_node n h fnode env sz = Some (Value cls, s)"
    have k: "apply_function (eval_node n h) cls = apply_class_constructor (eval_node n h) cls"
      using a by (auto simp: apply_function_def fun_eq_iff)
    have "\<And>nodes. eval_node (Suc n) h (CallExpression fnode nodes) env sz
            = eval_arguments (eval_node n h) nodes env [] s
                (apply_class_constructor (eval_node n h) cls)"
      using a k by (simp add: eval_dispatch_def eval_call_expression_def is_error_def)
    then show "eval_node (Suc n) h (CallExpression fnode arg_nodes) env sz
            = eval_arguments (eval_node n h) arg_nodes env [] s
                (apply_class_constructor (eval_node n h) cls)
          \<and> eval_node (Suc n) h (CallExpression fnode []) env sz
            = apply_class_constructor (eval_node n h) cls [] s"
      by simp
  qed
  show ?thesis
    unfolding Let_def
    using new empty no_init with_init bound only disp call
    unfolding flds_def sa_def inst_def by blast
qed

theorem class_constructor_contract_witness:
  "get_method person_class ''__init__'' = Some person_init
   \<and> ''self'' \<notin> set [''name''] \<and> length [''name''] = length [String ''Alice'']
   \<and> map_option (\<lambda>(out, sb). (out, get_field sb (Environment 3 None) ''name''))
        (apply_class_constructor (eval_node 5 no_files) person_class [String ''Alice'']
           (initial_state\<lparr>next_id := 3\<rparr>))
      = Some (Value (Instance person_class (Environment 3 None)), Some (String ''Alice''))
   \<and> map_option (\<lambda>(out, sb). (out, get_field sb (Environment 3 None) ''name''))
        (apply_function (eval_node 5 no_files) person_class [String ''Alice'']
           (initial_state\<lparr>next_id := 3\<rparr>))
      = Some (Value (Instance person_class (Environment 3 None)), Some (String ''Alice''))
   \<and> parse_source 40 person_source = Inr (Some (person_program, []))
   \<and> map_option fst (eval_node 12 no_files person_program env0 state0)
      = Some (Value (String ''Alice''))"
proof -
  define ev where "ev = eval_node 5 no_files"
  define s where "s = initial_state\<lparr>next_id := 3\<rparr>"
  define sa where "sa = s\<lparr>heap := (heap s)(next_id s := []), next_id := Suc (next_id s)\<rparr>"
  define inst where "inst = Instance person_class (Environment (next_id s) None)"
  define run where "run = apply_user_function ev person_init (inst # [String ''Alice'']) sa"
  have n: "next_id s = 3" by (simp add: s_def)
  have m: "get_method person_class ''__init__'' = Some person_init"
    by (simp add: person_class_def)
  have P: "map_option (\<lambda>(out, sb). (out, get_field sb (Environment 3 None) ''name''))
             (apply_user_function (eval_node 5 no_files) person_init
                (Instance person_class (Environment 3 None) # [String ''Alice''])
                (initial_state\<lparr>next_id := 3, heap := (heap initial_state)(3 := []), next_id := 4\<rparr>))
           = Some (Value (String ''Alice''), Some (String ''Alice''))"
    unfolding person_class_def person_init_def env0_def by code_simp
  have sa_eq: "sa = initial_state\<lparr>next_id := 3, heap := (heap initial_state)(3 := []), next_id := 4\<rparr>"
    by (simp add: sa_def s_def)
  have P': "map_option (\<lambda>(out, sb). (out, get_field sb (Environment 3 None) ''name'')) run
              = Some (Value (String ''Alice''), Some (String ''Alice''))"
    using P unfolding run_def ev_def inst_def n sa_eq .
  then obtain sb where
    U: "run = Some (Value (String ''Alice''), sb)"
    and F: "get_field sb (Environment 3 None) ''name'' = Some (String ''Alice'')"
    by (cases run) auto
  have ne: "\<not> is_error (String ''Alice'')" by (simp add: is_error_def)
  note contract = class_constructor_contract
      [where s = s and cls = person_class and ev = ev and args = "[String ''Alice'']",
       unfolded Let_def, folded sa_def, folded inst_def]
  note with_init = contract [THEN conjunct2, THEN conjunct2, THEN conjunct2, THEN conjunct1,
      rule_format]
  note dispatch = contract [THEN conjunct2, THEN conjunct2, THEN conjunct2, THEN conjunct2,
      THEN conjunct2, THEN conjunct2, THEN conjunct1, rule_format]
  have step: "apply_class_constructor ev person_class [String ''Alice''] s
          = Some (Value (if is_error (String ''Alice'') then String ''Alice'' else inst), sb)"
    using with_init [OF conjI [OF m U [unfolded run_def]]] .
  have ctor: "apply_class_constructor ev person_class [String ''Alice''] s = Some (Value inst, sb)"
    using step ne by simp
  have "apply_function ev person_class [String ''Alice''] s
          = apply_class_constructor ev person_class [String ''Alice''] s"
    using dispatch [OF person_class_def] .
  then have fn: "apply_function ev person_class [String ''Alice''] s = Some (Value inst, sb)"
    using ctor by simp
  have src: "parse_source 40 person_source = Inr (Some (person_program, []))"
    unfolding person_program_def by code_simp
  have prog: "map_option fst (eval_node 12 no_files person_program env0 state0)
                = Some (Value (String ''Alice''))"
    unfolding person_program_def by code_simp
  show ?thesis
    using m F ctor fn src prog unfolding ev_def s_def inst_def by simp
qed

subsection \<open>What every evaluation preserves\<close>

text \<open>
  No evaluation lowers the id counter, none changes the loading stack between its start
  and its end, and every store stays a dict.
\<close>

lemma steps_ok_refl [simp]: "steps_ok s s"
  by (simp add: steps_ok_def)

lemma steps_ok_trans: "steps_ok s s1 \<Longrightarrow> steps_ok s1 s2 \<Longrightarrow> steps_ok s s2"
  by (auto simp: steps_ok_def)

lemma steps_ok_env_set [simp]: "steps_ok s (env_set e name v s)"
  by (auto simp: steps_ok_def env_set_def stores_are_dicts_def distinct_update)

lemma steps_ok_env_set_after: "steps_ok s s1 \<Longrightarrow> steps_ok s (env_set e name v s1)"
  by (rule steps_ok_trans [OF _ steps_ok_env_set])

lemma steps_ok_fresh_id: "fresh_id s = (i, s1) \<Longrightarrow> steps_ok s s1"
  by (auto simp: fresh_id_def steps_ok_def stores_are_dicts_def)

lemma steps_ok_new_environment: "new_environment out s = (e, s1) \<Longrightarrow> steps_ok s s1"
  by (auto simp: new_environment_def steps_ok_def stores_are_dicts_def)

lemma steps_ok_cache_module [simp]: "steps_ok s (cache_module path m s)"
  by (auto simp: steps_ok_def cache_module_def stores_are_dicts_def)

lemma steps_ok_fold_env_set:
  "steps_ok s (fold (\<lambda>(name, ob). if P name then env_set e name ob else id) xs s)"
proof (induction xs arbitrary: s)
  case Nil
  show ?case by simp
next
  case (Cons x xs)
  obtain name ob where x: "x = (name, ob)" by (cases x)
  show ?case
    using Cons [of "if P name then env_set e name ob s else s"]
    by (auto simp: x intro: steps_ok_trans [OF steps_ok_env_set])
qed

lemma steps_ok_fold_builtins:
  "steps_ok s (fold (\<lambda>(name, ob). env_set e name ob) xs s)"
  using steps_ok_fold_env_set [of s "\<lambda>_. True" e xs] by simp

lemma steps_ok_bind_parameters: "steps_ok s (bind_parameters e params args s)"
  by (induction e params args s rule: bind_parameters.induct)
     (auto intro: steps_ok_trans [OF steps_ok_env_set])

lemma steps_ok_class_methods: "class_methods nodes e ms s = (ms', s') \<Longrightarrow> steps_ok s s'"
proof (induction nodes e ms s rule: class_methods.induct)
  case (2 name parameters body rest env methods s)
  obtain i s1 where f: "fresh_id s = (i, s1)" by (cases "fresh_id s")
  show ?case
    using 2 f by (auto intro: steps_ok_trans [OF steps_ok_fresh_id])
qed auto

lemma steps_ok_call_builtin: "call_builtin name args s = Some (out, s') \<Longrightarrow> steps_ok s s'"
  by (auto simp: call_builtin_def builtin_print_def builtin_input_def builtin_exit_def ret_def
        steps_ok_def stores_are_dicts_def Let_def
        split: if_splits list.splits obj.splits)

lemma steps_ok_and_then:
  assumes "and_then r f = Some (out, s'')"
      and "\<And>o1 s1. r = Some (o1, s1) \<Longrightarrow> steps_ok s s1"
      and "\<And>v s1. r = Some (Value v, s1) \<Longrightarrow> f v s1 = Some (out, s'') \<Longrightarrow> steps_ok s1 s''"
  shows "steps_ok s s''"
  using assms(1)
proof (cases rule: and_then_SomeE)
  case (exit c)
  then show ?thesis using assms(2) by simp
next
  case (val v s1)
  then show ?thesis using assms(2,3) steps_ok_trans by blast
qed

lemma sound_evaluatorD: "sound_evaluator ev \<Longrightarrow> ev node env s = Some (out, s') \<Longrightarrow> steps_ok s s'"
  by (auto simp: sound_evaluator_def)

lemma steps_ok_eval_program:
  "sound_evaluator ev \<Longrightarrow> eval_program ev nodes env res s = Some (out, s') \<Longrightarrow> steps_ok s s'"
proof (induction nodes arbitrary: res s)
  case Nil
  then show ?case by (simp add: ret_def)
next
  case (Cons st rest)
  show ?case
    using Cons.prems(2)
    apply (simp only: eval_program.simps)
    apply (erule steps_ok_and_then)
     apply (erule sound_evaluatorD [OF Cons.prems(1)])
    apply (auto simp: ret_def split: obj.splits dest: Cons.IH [OF Cons.prems(1)])
    done
qed

lemma steps_ok_eval_block_statement:
  "sound_evaluator ev \<Longrightarrow> eval_block_statement ev nodes env res s = Some (out, s')
     \<Longrightarrow> steps_ok s s'"
proof (induction nodes arbitrary: res s)
  case Nil
  then show ?case by (simp add: ret_def)
next
  case (Cons st rest)
  show ?case
    using Cons.prems(2)
    apply (simp only: eval_block_statement.simps)
    apply (erule steps_ok_and_then)
     apply (erule sound_evaluatorD [OF Cons.prems(1)])
    apply (auto simp: ret_def split: obj.splits dest: Cons.IH [OF Cons.prems(1)])
    done
qed

lemma steps_ok_eval_return_statement:
  "sound_evaluator ev \<Longrightarrow> eval_return_statement ev v env s = Some (out, s') \<Longrightarrow> steps_ok s s'"
  unfolding eval_return_statement_def
  apply (cases "v \<noteq> NoneNode")
   apply simp
   apply (erule steps_ok_and_then)
    apply (erule (1) sound_evaluatorD)
   apply (auto simp: ret_def split: if_splits prod.splits dest: steps_ok_fresh_id)
  done

lemma steps_ok_eval_member_assignment:
  "sound_evaluator ev \<Longrightarrow> eval_member_assignment ev ob member v env s = Some (out, s')
     \<Longrightarrow> steps_ok s s'"
  unfolding eval_member_assignment_def
  apply (erule steps_ok_and_then)
   apply (erule (1) sound_evaluatorD)
  apply (auto simp: ret_def set_field_def split: if_splits obj.splits)
  done

lemma steps_ok_eval_assign_statement:
  "sound_evaluator ev \<Longrightarrow> eval_assign_statement ev target v env s = Some (out, s')
     \<Longrightarrow> steps_ok s s'"
  unfolding eval_assign_statement_def
  apply (erule steps_ok_and_then)
   apply (erule (1) sound_evaluatorD)
  apply (auto simp: ret_def split: if_splits node.splits dest: steps_ok_eval_member_assignment)
  done

lemma steps_ok_eval_prefix_expression:
  "sound_evaluator ev \<Longrightarrow> eval_prefix_expression ev operator right env s = Some (out, s')
     \<Longrightarrow> steps_ok s s'"
  unfolding eval_prefix_expression_def
  apply (erule steps_ok_and_then)
   apply (erule (1) sound_evaluatorD)
  apply (auto simp: ret_def split: if_splits)
  done

lemma steps_ok_eval_infix_expression:
  "sound_evaluator ev \<Longrightarrow> eval_infix_expression ev left operator right env s = Some (out, s')
     \<Longrightarrow> steps_ok s s'"
  unfolding eval_infix_expression_def
  apply (erule steps_ok_and_then)
   apply (erule (1) sound_evaluatorD)
  apply (simp split: if_splits)
   apply (simp add: ret_def)
  apply (erule steps_ok_and_then)
   apply (erule (1) sound_evaluatorD)
  apply (auto simp: ret_def split: if_splits)
  done

lemma steps_ok_apply_user_function:
  "sound_evaluator ev \<Longrightarrow> apply_user_function ev fn args s = Some (out, s') \<Longrightarrow> steps_ok s s'"
proof -
  assume ev: "sound_evaluator ev" and run: "apply_user_function ev fn args s = Some (out, s')"
  show ?thesis
  proof (cases fn)
    case (Function parameters body fenv name i)
    show ?thesis
    proof (cases "length args \<noteq> length parameters")
      case True
      then show ?thesis using run Function by (simp add: apply_user_function_def ret_def)
    next
      case False
      obtain ext s1 where ne: "new_enclosed_environment fenv s = (ext, s1)"
        by (cases "new_enclosed_environment fenv s")
      have a: "steps_ok s (bind_parameters ext parameters args s1)"
        using ne steps_ok_new_environment steps_ok_bind_parameters steps_ok_trans
        unfolding new_enclosed_environment_def by blast
      have "and_then (ev body ext (bind_parameters ext parameters args s1))
              (\<lambda>evaluated s2. case evaluated of ReturnValue v j \<Rightarrow> ret v s2
                                         | _ \<Rightarrow> ret evaluated s2) = Some (out, s')"
        using run Function False ne by (simp add: apply_user_function_def)
      then have "steps_ok (bind_parameters ext parameters args s1) s'"
        apply (rule steps_ok_and_then)
         apply (erule sound_evaluatorD [OF ev])
        apply (auto simp: ret_def split: obj.splits)
        done
      then show ?thesis using a steps_ok_trans by blast
    qed
  qed (use run in \<open>simp_all add: apply_user_function_def\<close>)
qed

lemma steps_ok_apply_class_constructor:
  "sound_evaluator ev \<Longrightarrow> apply_class_constructor ev cls args s = Some (out, s')
     \<Longrightarrow> steps_ok s s'"
proof -
  assume ev: "sound_evaluator ev"
    and run: "apply_class_constructor ev cls args s = Some (out, s')"
  obtain flds s1 where ne: "new_environment None s = (flds, s1)"
    by (cases "new_environment None s")
  have a: "steps_ok s s1" using ne by (rule steps_ok_new_environment)
  show ?thesis
  proof (cases "get_method cls ''__init__''")
    case None
    then show ?thesis using run ne a by (simp add: apply_class_constructor_def ret_def Let_def)
  next
    case (Some init)
    have "and_then (apply_user_function ev init (Instance cls flds # args) s1)
            (\<lambda>res s2. if is_error res then ret res s2 else ret (Instance cls flds) s2)
          = Some (out, s')"
      using run ne Some by (simp add: apply_class_constructor_def Let_def)
    then have "steps_ok s1 s'"
      apply (rule steps_ok_and_then)
       apply (erule steps_ok_apply_user_function [OF ev])
      apply (auto simp: ret_def split: if_splits)
      done
    then show ?thesis using a steps_ok_trans by blast
  qed
qed

lemma steps_ok_apply_function:
  "sound_evaluator ev \<Longrightarrow> apply_function ev fn args s = Some (out, s') \<Longrightarrow> steps_ok s s'"
  by (cases fn)
     (auto simp: apply_function_def ret_def
        dest: steps_ok_apply_user_function steps_ok_apply_class_constructor steps_ok_call_builtin)

lemma steps_ok_eval_arguments:
  "sound_evaluator ev \<Longrightarrow> eval_arguments ev nodes env args s k = Some (out, s')
     \<Longrightarrow> (\<And>as s1. k as s1 = Some (out, s') \<Longrightarrow> steps_ok s1 s') \<Longrightarrow> steps_ok s s'"
proof (induction nodes arbitrary: args s)
  case Nil
  then show ?case by simp
next
  case (Cons a rest)
  show ?case
    using Cons.prems(2)
    apply (simp only: eval_arguments.simps)
    apply (erule steps_ok_and_then)
     apply (erule sound_evaluatorD [OF Cons.prems(1)])
    apply (simp split: if_splits)
     apply (simp add: ret_def)
    apply (erule Cons.IH [OF Cons.prems(1)])
    apply (erule Cons.prems(3))
    done
qed

lemma steps_ok_eval_call_expression:
  assumes ev: "sound_evaluator ev"
      and run: "eval_call_expression ev fnode arguments env s = Some (out, s')"
  shows "steps_ok s s'"
  using run unfolding eval_call_expression_def
  apply (rule steps_ok_and_then)
   apply (erule sound_evaluatorD [OF ev])
  apply (simp split: if_splits)
   apply (simp add: ret_def)
  apply (erule steps_ok_eval_arguments [OF ev])
  apply (erule steps_ok_apply_function [OF ev])
  done

lemma steps_ok_create_bound_method:
  "create_bound_method m inst s = (b, s') \<Longrightarrow> steps_ok s s'"
  by (cases m)
     (auto simp: create_bound_method_def new_enclosed_environment_def new_environment_def
        fresh_id_def env_set_def steps_ok_def stores_are_dicts_def distinct_update)

lemma steps_ok_eval_member_access_expression:
  "sound_evaluator ev \<Longrightarrow> eval_member_access_expression ev ob member env s = Some (out, s')
     \<Longrightarrow> steps_ok s s'"
  unfolding eval_member_access_expression_def
  apply (erule steps_ok_and_then)
   apply (erule (1) sound_evaluatorD)
  apply (auto simp: ret_def split: if_splits obj.splits option.splits prod.splits
              dest: steps_ok_create_bound_method)
  done

lemma steps_ok_make_module:
  assumes "make_module path fp env menv res s = Some (out, s')"
  shows "steps_ok s s'"
proof (cases "is_error res")
  case True
  then show ?thesis using assms by (simp add: make_module_def ret_def)
next
  case False
  obtain pub s4 where ne: "new_environment None s = (pub, s4)"
    by (cases "new_environment None s")
  define s5 where "s5 = fold (\<lambda>(name, ob). if is_public_name name
                               then env_set pub name ob else id) (env_items s4 menv) s4"
  have a: "steps_ok s s4" using ne by (rule steps_ok_new_environment)
  have b: "steps_ok s4 s5" unfolding s5_def by (rule steps_ok_fold_env_set)
  obtain modl where s': "s' = env_set env (extract_module_name path) modl (cache_module path modl s5)"
    using assms False ne by (auto simp: make_module_def ret_def Let_def s5_def)
  have c: "steps_ok s5 s'"
    unfolding s' by (rule steps_ok_env_set_after) simp
  show ?thesis using a b c steps_ok_trans by blast
qed

lemma steps_ok_load_module_body:
  assumes ev: "sound_evaluator ev"
      and run: "load_module_body n ev h path fp env s = Some (out, s')"
  shows "steps_ok s s'"
proof (cases "read_file h fp")
  case (Inl e)
  then show ?thesis using run by (cases e) (auto simp: load_module_body_def ret_def)
next
  case (Inr source)
  note src = Inr
  show ?thesis
  proof (cases "parse_source n source")
    case (Inl e)
    then show ?thesis using run src by (simp add: load_module_body_def ret_def)
  next
    case (Inr parsed)
    note pr = Inr
    show ?thesis
    proof (cases parsed)
      case None
      then show ?thesis using run src pr by (simp add: load_module_body_def)
    next
      case (Some pe)
      obtain program errs where pe: "pe = (program, errs)" by (cases pe)
      show ?thesis
      proof (cases "errs \<noteq> []")
        case True
        then show ?thesis using run src pr Some pe by (simp add: load_module_body_def ret_def)
      next
        case False
        obtain menv s1 where ne: "new_environment None s = (menv, s1)"
          by (cases "new_environment None s")
        define s2 where "s2 = fold (\<lambda>(name, builtin). env_set menv name builtin) BUILTINS s1"
        have a: "steps_ok s s2"
          using steps_ok_new_environment [OF ne] steps_ok_fold_builtins [of s1 menv BUILTINS]
          unfolding s2_def by (rule steps_ok_trans)
        have "and_then (ev program menv s2) (make_module path fp env menv) = Some (out, s')"
          using run src pr Some pe False ne by (simp add: load_module_body_def s2_def)
        then have "steps_ok s2 s'"
          apply (rule steps_ok_and_then)
           apply (erule sound_evaluatorD [OF ev])
          apply (erule steps_ok_make_module)
          done
        then show ?thesis using a steps_ok_trans by blast
      qed
    qed
  qed
qed

lemma steps_ok_load_module:
  assumes ev: "sound_evaluator ev"
      and run: "load_module n ev h path env s = Some (out, s')"
  shows "steps_ok s s'"
proof (cases "get_cached_module s path")
  case (Some m)
  then show ?thesis using run by (auto simp: load_module_def ret_def)
next
  case None
  note nc = None
  show ?thesis
  proof (cases "is_loading s path")
    case True
    then show ?thesis using run nc by (simp add: load_module_def ret_def)
  next
    case False
    note nl = False
    show ?thesis
    proof (cases "resolve_module_path h path (getcwd h)")
      case None
      then show ?thesis using run nc nl by (simp add: load_module_def ret_def)
    next
      case (Some fp)
      obtain s1 where body: "load_module_body n ev h path fp env (start_loading path s) = Some (out, s1)"
        and s': "s' = finish_loading path s1"
        using run nc nl Some by (auto simp: load_module_def split: option.splits)
      have b: "steps_ok (start_loading path s) s1"
        using ev body by (rule steps_ok_load_module_body)
      have stack: "loading_stack s1 = loading_stack s @ [path]"
        using b by (simp add: steps_ok_def start_loading_def)
      have "path \<notin> set (loading_stack s)" using nl by (simp add: is_loading_def)
      then have "loading_stack s' = loading_stack s"
        unfolding s' finish_loading_def using stack by (simp add: remove1_append)
      moreover have "next_id s \<le> next_id s'"
        using b unfolding s' by (simp add: steps_ok_def start_loading_def finish_loading_def)
      moreover have "stores_are_dicts s \<longrightarrow> stores_are_dicts s'"
        using b unfolding s'
        by (simp add: steps_ok_def start_loading_def finish_loading_def stores_are_dicts_def)
      ultimately show ?thesis by (simp add: steps_ok_def)
    qed
  qed
qed

lemma steps_ok_eval_load_statement:
  "sound_evaluator ev \<Longrightarrow> eval_load_statement n ev h paths env res s = Some (out, s')
     \<Longrightarrow> steps_ok s s'"
proof (induction paths arbitrary: res s)
  case Nil
  then show ?case by (simp add: ret_def)
next
  case (Cons p rest)
  show ?case
    using Cons.prems(2)
    apply (simp only: eval_load_statement.simps)
    apply (erule steps_ok_and_then)
     apply (erule steps_ok_load_module [OF Cons.prems(1)])
    apply (auto simp: ret_def split: if_splits dest: Cons.IH [OF Cons.prems(1)])
    done
qed

lemma steps_ok_eval_dispatch:
  assumes ev: "sound_evaluator ev"
      and run: "eval_dispatch n h ev node env s = Some (out, s')"
  shows "steps_ok s s'"
proof (cases node)
  case (Program x)
  then show ?thesis using run steps_ok_eval_program [OF ev] by (simp add: eval_dispatch_def)
next
  case (BlockStatement x)
  then show ?thesis using run steps_ok_eval_block_statement [OF ev] by (simp add: eval_dispatch_def)
next
  case (ExpressionStatement x)
  then show ?thesis using run sound_evaluatorD [OF ev] by (simp add: eval_dispatch_def)
next
  case (ReturnStatement x)
  then show ?thesis using run steps_ok_eval_return_statement [OF ev] by (simp add: eval_dispatch_def)
next
  case (AssignStatement x y)
  then show ?thesis using run steps_ok_eval_assign_statement [OF ev] by (simp add: eval_dispatch_def)
next
  case (PackageStatement x)
  then show ?thesis using run by (auto simp: eval_dispatch_def eval_package_statement_def ret_def)
next
  case (LoadStatement x)
  then show ?thesis using run steps_ok_eval_load_statement [OF ev] by (simp add: eval_dispatch_def)
next
  case (FunctionStatement x y z)
  then show ?thesis using run
    by (auto simp: eval_dispatch_def eval_function_statement_def ret_def Let_def
          split: prod.splits dest!: steps_ok_fresh_id intro: steps_ok_env_set_after)
next
  case (ClassStatement x y)
  then show ?thesis using run
    by (auto simp: eval_dispatch_def eval_class_statement_def ret_def Let_def
          split: prod.splits dest!: steps_ok_fresh_id steps_ok_class_methods
          intro!: steps_ok_env_set_after intro: steps_ok_trans)
next
  case (PrefixExpression x y)
  then show ?thesis using run steps_ok_eval_prefix_expression [OF ev] by (simp add: eval_dispatch_def)
next
  case (InfixExpression x y z)
  then show ?thesis using run steps_ok_eval_infix_expression [OF ev] by (simp add: eval_dispatch_def)
next
  case (CallExpression x y)
  then show ?thesis using run steps_ok_eval_call_expression [OF ev] by (simp add: eval_dispatch_def)
next
  case (MemberAccessExpression x y)
  then show ?thesis using run steps_ok_eval_member_access_expression [OF ev]
    by (simp add: eval_dispatch_def)
qed (use run in \<open>auto simp: eval_dispatch_def ret_def eval_self_expression_def
                    eval_identifier_def split: option.splits\<close>)

lemma sound_evaluator_eval_node: "sound_evaluator (eval_node n h)"
proof (induction n)
  case 0
  show ?case by (simp add: sound_evaluator_def)
next
  case (Suc n)
  show ?case
    unfolding sound_evaluator_def
    using steps_ok_eval_dispatch [OF Suc] by auto
qed

subsection \<open>Circular imports\<close>

text \<open>
  C8. A \<open>load\<close> of a path that is on the loading stack (and so not yet in the cache)
  returns the Error "Circular import detected: path" at once, without reading a file or
  evaluating anything, whatever the fuel. A \<open>load\<close> that does start loading a file pushes
  the path, and however the body ends (a Module, an Error or \<open>SystemExit\<close>) the path
  is removed again: the loading stack after the \<open>load\<close> is the stack before it.
\<close>

theorem circular_import_detected:
  "(get_cached_module s path = None \<and> is_loading s path \<longrightarrow>
      load_module n ev h path env s
        = Some (Value (Error (''Circular import detected: '' @ path)), s))
   \<and> (load_module n (eval_node k h) h path env s = Some (out, s') \<longrightarrow>
        loading_stack s' = loading_stack s)
   \<and> (get_cached_module s path = None \<and> \<not> is_loading s path
        \<and> resolve_module_path h path (getcwd h) = Some fp
        \<and> load_module n (eval_node k h) h path env s = Some (out, s') \<longrightarrow>
        (\<exists>sb. load_module_body n (eval_node k h) h path fp env (start_loading path s)
                 = Some (out, sb)
              \<and> is_loading sb path \<and> s' = finish_loading path sb \<and> \<not> is_loading s' path))"
proof (intro conjI impI)
  assume "get_cached_module s path = None \<and> is_loading s path"
  then show "load_module n ev h path env s
               = Some (Value (Error (''Circular import detected: '' @ path)), s)"
    by (simp add: load_module_def ret_def)
next
  assume "load_module n (eval_node k h) h path env s = Some (out, s')"
  then have "steps_ok s s'"
    by (rule steps_ok_load_module [OF sound_evaluator_eval_node])
  then show "loading_stack s' = loading_stack s" by (simp add: steps_ok_def)
next
  assume a: "get_cached_module s path = None \<and> \<not> is_loading s path
        \<and> resolve_module_path h path (getcwd h) = Some fp
        \<and> load_module n (eval_node k h) h path env s = Some (out, s')"
  then obtain sb where
    body: "load_module_body n (eval_node k h) h path fp env (start_loading path s) = Some (out, sb)"
    and s': "s' = finish_loading path sb"
    by (auto simp: load_module_def split: option.splits)
  have "steps_ok (start_loading path s) sb"
    using sound_evaluator_eval_node body by (rule steps_ok_load_module_body)
  then have stack: "loading_stack sb = loading_stack s @ [path]"
    by (simp add: steps_ok_def start_loading_def)
  have "steps_ok s s'"
    using a steps_ok_load_module [OF sound_evaluator_eval_node] by blast
  then have "loading_stack s' = loading_stack s" by (simp add: steps_ok_def)
  then have "\<not> is_loading s' path" using a by (simp add: is_loading_def)
  moreover have "is_loading sb path" using stack by (simp add: is_loading_def)
  ultimately show "\<exists>sb. load_module_body n (eval_node k h) h path fp env (start_loading path s)
                 = Some (out, sb)
              \<and> is_loading sb path \<and> s' = finish_loading path sb \<and> \<not> is_loading s' path"
    using body s' by blast
qed

theorem circular_import_detected_witness:
  "get_cached_module (state0\<lparr>loading_stack := [''module_a'']\<rparr>) ''module_a'' = None
   \<and> is_loading (state0\<lparr>loading_stack := [''module_a'']\<rparr>) ''module_a''
   \<and> load_module 0 (eval_node 0 cyclic_host) cyclic_host ''module_a'' env0
        (state0\<lparr>loading_stack := [''module_a'']\<rparr>)
      = Some (Value (Error ''Circular import detected: module_a''),
              state0\<lparr>loading_stack := [''module_a'']\<rparr>)
   \<and> get_cached_module state0 ''module_a'' = None \<and> \<not> is_loading state0 ''module_a''
   \<and> resolve_module_path cyclic_host ''module_a'' (getcwd cyclic_host) = Some ''/module_a.zen''
   \<and> (\<exists>s'. load_module 20 (eval_node 20 cyclic_host) cyclic_host ''module_a'' env0 state0
              = Some (Value (Error ''Circular import detected: module_a''), s')
           \<and> loading_stack s' = [] \<and> \<not> is_loading s' ''module_a'')"
proof -
  define sl where "sl = state0\<lparr>loading_stack := [''module_a'']\<rparr>"
  have c: "get_cached_module sl ''module_a'' = None" "is_loading sl ''module_a''"
    by (simp_all add: sl_def get_cached_module_def is_loading_def state0_def initial_state_def)
  have first: "load_module 0 (eval_node 0 cyclic_host) cyclic_host ''module_a'' env0 sl
                 = Some (Value (Error (''Circular import detected: '' @ ''module_a'')), sl)"
    using circular_import_detected
            [where s = sl and path = "''module_a''" and n = 0 and ev = "eval_node 0 cyclic_host"
               and h = cyclic_host and env = env0]
          c
    by blast
  have c0: "get_cached_module state0 ''module_a'' = None" "\<not> is_loading state0 ''module_a''"
    by (simp_all add: get_cached_module_def is_loading_def state0_def initial_state_def)
  have srcs:
    "parse_source 20 module_a_source
       = Inr (Some (Program [PackageStatement ''module_a'', LoadStatement [''module_b'']], []))"
    "parse_source 18 module_b_source
       = Inr (Some (Program [PackageStatement ''module_b'', LoadStatement [''module_a'']], []))"
    by code_simp+
  have res:
    "resolve_module_path cyclic_host ''module_a'' ''/'' = Some ''/module_a.zen''"
    "resolve_module_path cyclic_host ''module_b'' ''/'' = Some ''/module_b.zen''"
    by code_simp+
  have host_facts:
    "getcwd cyclic_host = ''/''"
    "read_file cyclic_host ''/module_a.zen'' = Inr module_a_source"
    "read_file cyclic_host ''/module_b.zen'' = Inr module_b_source"
    by (simp_all add: cyclic_host_def)
  have state0_facts:
    "loaded_modules state0 = []" "loading_stack state0 = []" "next_id state0 = 1"
    by (simp_all add: state0_def initial_state_def)
  have "\<exists>s'. load_module 20 (eval_node 20 cyclic_host) cyclic_host ''module_a'' env0 state0
              = Some (Value (Error ''Circular import detected: module_a''), s')"
    by (simp add: load_module_def load_module_body_def get_cached_module_def is_loading_def
          res srcs host_facts state0_facts new_environment_def make_module_def
          eval_node_numeral eval_dispatch_def eval_package_statement_def ret_def is_error_def)
  then obtain s' where
    R: "load_module 20 (eval_node 20 cyclic_host) cyclic_host ''module_a'' env0 state0
          = Some (Value (Error ''Circular import detected: module_a''), s')"
    by blast
  have res': "resolve_module_path cyclic_host ''module_a'' (getcwd cyclic_host)
                = Some ''/module_a.zen''"
    using res host_facts by simp
  have "loading_stack s' = loading_stack state0 \<and> \<not> is_loading s' ''module_a''"
    using circular_import_detected
            [where s = state0 and path = "''module_a''" and n = 20 and k = 20
               and h = cyclic_host and env = env0 and s' = s' and fp = "''/module_a.zen''"
               and out = "Value (Error ''Circular import detected: module_a'')"]
          c0 res' R
    by blast
  then have "loading_stack s' = [] \<and> \<not> is_loading s' ''module_a''"
    by (simp add: state0_facts)
  then show ?thesis
    using first c c0 res' R unfolding sl_def by auto
qed

subsection \<open>Module visibility\<close>







end
